theory Spec2Isabelle
  imports Complex_Main
begin

section \<open>Strings\<close>

text \<open>
  A JavaScript string is modelled as a \<^typ>\<open>string\<close>; a \<^typ>\<open>char\<close> stands for a code unit
  below 256. The methods the sources call are written out as list functions.
\<close>

definition startsWith :: "string \<Rightarrow> string \<Rightarrow> bool" where
  \<comment> \<open>\<^verbatim>\<open>s.startsWith(p)\<close>\<close>
  "startsWith s p \<longleftrightarrow> take (length p) s = p"

fun includesStr :: "string \<Rightarrow> string \<Rightarrow> bool" where
  \<comment> \<open>\<^verbatim>\<open>s.includes(p)\<close>: \<open>p\<close> occurs at some position of \<open>s\<close>\<close>
  "includesStr [] p = (p = [])"
| "includesStr (c # cs) p = (startsWith (c # cs) p \<or> includesStr cs p)"

definition isWhiteSpace :: "char \<Rightarrow> bool" where
  \<comment> \<open>what \<^verbatim>\<open>trim()\<close> strips: TAB, LF, VT, FF, CR, space, NBSP\<close>
  "isWhiteSpace c \<longleftrightarrow>
     c = CHR 0x09 \<or> c = CHR 0x0A \<or> c = CHR 0x0B \<or> c = CHR 0x0C \<or> c = CHR 0x0D \<or>
     c = CHR 0x20 \<or> c = CHR 0xA0"

definition trim :: "string \<Rightarrow> string" where
  \<comment> \<open>\<^verbatim>\<open>s.trim()\<close>\<close>
  "trim s = rev (dropWhile isWhiteSpace (rev (dropWhile isWhiteSpace s)))"

definition isDigit :: "char \<Rightarrow> bool" where
  \<comment> \<open>the regular expression class \<^verbatim>\<open>\d\<close>: \<open>0\<close> to \<open>9\<close>\<close>
  "isDigit c \<longleftrightarrow> 48 \<le> (of_char c :: int) \<and> (of_char c :: int) \<le> 57"

section \<open>Decoded payloads\<close>

text \<open>
  What \<^verbatim>\<open>JSON.parse\<close> returns. An object is the list of its own properties in
  enumeration order (keys distinct); numbers are rationals, since no function below
  computes with a payload number beyond comparing it. A decoded object has the
  ordinary object prototype; \<^verbatim>\<open>JSON.parse\<close> stores a key \<^verbatim>\<open>__proto__\<close> as an own
  property like any other.
\<close>

datatype json =
    JNull
  | JBool bool
  | JNum rat
  | JStr string
  | JArr "json list"
  | JObj "(string \<times> json) list"

text \<open>A property read yields \<open>None\<close> for \<^verbatim>\<open>undefined\<close>.\<close>

fun getProp :: "json \<Rightarrow> string \<Rightarrow> json option" where
  \<comment> \<open>\<^verbatim>\<open>v.name\<close> for the names the sources read (none of them is an array index or
      \<^verbatim>\<open>length\<close>, so only an object has them)\<close>
  "getProp (JObj kvs) name = map_of kvs name"
| "getProp v name = None"

fun truthy :: "json option \<Rightarrow> bool" where
  "truthy None = False"
| "truthy (Some JNull) = False"
| "truthy (Some (JBool b)) = b"
| "truthy (Some (JNum n)) = (n \<noteq> 0)"
| "truthy (Some (JStr s)) = (s \<noteq> [])"
| "truthy (Some (JArr xs)) = True"
| "truthy (Some (JObj kvs)) = True"

definition js_or :: "json option \<Rightarrow> json option \<Rightarrow> json option" where
  \<comment> \<open>\<^verbatim>\<open>a || b\<close>\<close>
  "js_or a b = (if truthy a then a else b)"

fun typeof :: "json \<Rightarrow> string" where
  "typeof JNull = ''object''"
| "typeof (JBool b) = ''boolean''"
| "typeof (JNum n) = ''number''"
| "typeof (JStr s) = ''string''"
| "typeof (JArr xs) = ''object''"
| "typeof (JObj kvs) = ''object''"

fun isArray :: "json option \<Rightarrow> bool" where
  \<comment> \<open>\<^verbatim>\<open>Array.isArray(v)\<close>\<close>
  "isArray (Some (JArr xs)) = True"
| "isArray v = False"

fun elements :: "json option \<Rightarrow> json list" where
  "elements (Some (JArr xs)) = xs"
| "elements v = []"

text \<open>
  \<^verbatim>\<open>JSON.parse\<close> belongs to the runtime. The decoder is a parameter \<open>dec\<close>
  (\<open>None\<close> when it throws \<^verbatim>\<open>SyntaxError\<close>), restricted by the one fact of the JSON
  grammar the callers depend on: after optional white space a JSON text starts with
  \<^verbatim>\<open>{\<close>, \<^verbatim>\<open>[\<close>, a double quote, \<^verbatim>\<open>-\<close>, a digit, or the first letter of
  \<^verbatim>\<open>true\<close>, \<^verbatim>\<open>false\<close>, \<^verbatim>\<open>null\<close>; on any other text the parse throws.
\<close>

definition isJsonWhiteSpace :: "char \<Rightarrow> bool" where
  "isJsonWhiteSpace c \<longleftrightarrow> c = CHR 0x09 \<or> c = CHR 0x0A \<or> c = CHR 0x0D \<or> c = CHR 0x20"

definition jsonStart :: "string \<Rightarrow> bool" where
  "jsonStart text =
     (case dropWhile isJsonWhiteSpace text of
        [] \<Rightarrow> False
      | c # rest \<Rightarrow>
          c = CHR ''{'' \<or> c = CHR ''['' \<or> c = CHR 0x22 \<or> c = CHR ''-'' \<or> isDigit c \<or>
          c = CHR ''t'' \<or> c = CHR ''f'' \<or> c = CHR ''n'')"

definition JSON_parse :: "(string \<Rightarrow> json option) \<Rightarrow> string \<Rightarrow> json option" where
  "JSON_parse dec text = (if jsonStart text then dec text else None)"

section \<open>api.ts: apiCall\<close>

text \<open>
  \<^verbatim>\<open>new Error(v)\<close> is \<open>Error v\<close>: the value handed to the constructor (its message is
  that value as a string; every message named below is a string already).
  \<open>TypeError\<close> is the engine's own error for a property read on \<^verbatim>\<open>null\<close>,
  \<open>RangeError\<close> the one \<^verbatim>\<open>toISOString()\<close> throws on an invalid date.
\<close>

datatype error = Error json | TypeError | RangeError

text \<open>
  What the inner \<^verbatim>\<open>try\<close> block of \<^verbatim>\<open>apiCall\<close> can throw: the decoder's
  \<^verbatim>\<open>SyntaxError\<close>, or the \<^verbatim>\<open>Error\<close> built from an error envelope.
\<close>

datatype thrown = SyntaxError | Thrown error

definition tryParse :: "(string \<Rightarrow> json option) \<Rightarrow> string \<Rightarrow> thrown + json" where
  \<comment> \<open>api.ts 48-55, the body of the inner \<^verbatim>\<open>try\<close>\<close>
  "tryParse dec text =
     (case JSON_parse dec text of
        None \<Rightarrow> Inl SyntaxError
      | Some parsed \<Rightarrow>
          if truthy (Some parsed) \<and> typeof parsed = ''object''
               \<and> getProp parsed ''status'' = Some (JStr ''error'')
          then Inl (Thrown (Error (the (js_or (getProp parsed ''error'')
                 (js_or (getProp parsed ''msg'') (Some (JStr ''API returned an error'')))))))
          else Inr parsed)"

definition apiCall :: "(string \<Rightarrow> json option) \<Rightarrow> string \<Rightarrow> error + json" where
  \<comment> \<open>api.ts 36-62, from the response text on. The handler of the inner \<^verbatim>\<open>try\<close>
      catches whatever the body throws and never reads it; the outer handler rethrows
      every \<^verbatim>\<open>Error\<close> unchanged. The result is the decoded value, or the text itself
      (\<open>JStr text\<close>).\<close>
  "apiCall dec text =
     (if startsWith text ''NO_KEY'' \<or> startsWith text ''BAD_KEY''
      then Inl (Error (JStr ''Invalid API key. Please check your API key in Raycast preferences.''))
      else if startsWith text ''ERROR_SQL''
      then Inl (Error (JStr ''Server error. Please try again later.''))
      else
        (case tryParse dec text of
           Inr parsed \<Rightarrow> Inr parsed
         | Inl parseError \<Rightarrow>
             if startsWith text ''BAD_'' \<or> startsWith text ''NO_'' \<or> startsWith text ''ERROR_''
             then Inl (Error (JStr text))
             else Inr (JStr text)))"

section \<open>api.ts: getActiveActivations\<close>

definition allDigits :: "string \<Rightarrow> bool" where
  \<comment> \<open>\<^verbatim>\<open>/^\d+$/.test(key)\<close>\<close>
  "allDigits key \<longleftrightarrow> key \<noteq> [] \<and> list_all isDigit key"

fun objectKeys :: "json \<Rightarrow> string list" where
  "objectKeys (JObj kvs) = map fst kvs"
| "objectKeys v = []"

fun objectValues :: "json \<Rightarrow> json list" where
  "objectValues (JObj kvs) = map snd kvs"
| "objectValues v = []"

definition activeActivationsOf :: "(json \<Rightarrow> json) \<Rightarrow> json \<Rightarrow> error + json list" where
  \<comment> \<open>api.ts 240-305. \<open>toActivation\<close> is the arrow function of lines 256-271 that
      renames and defaults the fields of one row; it is a parameter, and reading a field
      of a \<^verbatim>\<open>null\<close> row throws.\<close>
  "activeActivationsOf toActivation result =
     (case result of
        JStr s \<Rightarrow>
          if s = ''NO_ACTIVATIONS'' \<or> includesStr s ''NO_ACTIVATIONS'' then Inr []
          else Inl (Error (JStr s))
      | _ \<Rightarrow>
          if truthy (Some result) \<and> typeof result = ''object'' then
            (let active = getProp result ''activeActivations'';
                 standard = (getProp result ''status'' = Some (JStr ''success'') \<and> truthy active);
                 rows = (case active of None \<Rightarrow> None | Some a \<Rightarrow> getProp a ''rows'')
             in
               if standard \<and> isArray rows then
                 (if list_ex (\<lambda>row. row = JNull) (elements rows) then Inl TypeError
                  else Inr (map toActivation (elements rows)))
               else if standard \<and> isArray active then Inr (elements active)
               else if getProp result ''status'' = Some (JStr ''error'') then
                 (if getProp result ''error'' = Some (JStr ''NO_ACTIVATIONS'') then Inr []
                  else Inl (Error (the (js_or (getProp result ''error'')
                         (Some (JStr ''API returned an error''))))))
               else if isArray (Some result) then Inr (elements (Some result))
               else if objectKeys result \<noteq> [] \<and> list_all allDigits (objectKeys result)
               then Inr (objectValues result)
               else Inl (Error (JStr (''Failed to fetch active activations: unexpected response format. Type: ''
                      @ typeof result))))
          else Inl (Error (JStr (''Failed to fetch active activations: unexpected response format. Type: ''
                 @ typeof result))))"

definition getActiveActivations ::
  "(string \<Rightarrow> json option) \<Rightarrow> (json \<Rightarrow> json) \<Rightarrow> string \<Rightarrow> error + json list" where
  \<comment> \<open>api.ts 237-306: an error thrown by \<open>apiCall\<close> leaves the function at line 238\<close>
  "getActiveActivations dec toActivation text =
     (case apiCall dec text of
        Inl e \<Rightarrow> Inl e
      | Inr result \<Rightarrow> activeActivationsOf toActivation result)"

section \<open>api.ts: getPrices\<close>

text \<open>
  \<^verbatim>\<open>Object.assign({}, ...sources)\<close> copies the own enumerable properties of each
  source, in order, into one target, by ordinary assignment. Writing a property that
  exists replaces its value where it stands; a new one is placed as the engine enumerates
  keys: array indices first, ascending, then the other keys in the order they were
  written. Assigning to \<^verbatim>\<open>__proto__\<close> is different: while the target has no own
  property of that name and the setter of the object prototype is in reach along its
  prototype chain, the assignment creates no property; it makes an object (or
  \<^verbatim>\<open>null\<close>) the target's prototype and ignores any other value.
\<close>

definition indexValue :: "string \<Rightarrow> int" where
  "indexValue k = foldl (\<lambda>n c. 10 * n + (of_char c - 48)) 0 k"

definition isArrayIndex :: "string \<Rightarrow> bool" where
  \<comment> \<open>a canonical decimal numeral below \<open>2^32 - 1\<close>\<close>
  "isArrayIndex k \<longleftrightarrow>
     allDigits k \<and> (k = ''0'' \<or> \<not> startsWith k ''0'') \<and> indexValue k < 4294967295"

fun setProp :: "(string \<times> json) list \<Rightarrow> string \<Rightarrow> json \<Rightarrow> (string \<times> json) list" where
  "setProp [] k v = [(k, v)]"
| "setProp ((k', v') # kvs) k v =
     (if k' = k then (k, v) # kvs
      else if isArrayIndex k \<and> (\<not> isArrayIndex k' \<or> indexValue k < indexValue k')
      then (k, v) # (k', v') # kvs
      else (k', v') # setProp kvs k v)"

fun showNat :: "nat \<Rightarrow> string" where
  "showNat n =
     (if n < 10 then [''0123456789'' ! n]
      else showNat (n div 10) @ [''0123456789'' ! (n mod 10)])"

declare showNat.simps [simp del]

fun ownProps :: "json \<Rightarrow> (string \<times> json) list" where
  \<comment> \<open>the own enumerable properties of a source of \<^verbatim>\<open>Object.assign\<close>\<close>
  "ownProps (JObj kvs) = kvs"
| "ownProps (JArr xs) = zip (map showNat [0..<length xs]) xs"
| "ownProps (JStr s) = zip (map showNat [0..<length s]) (map (\<lambda>c. JStr [c]) s)"
| "ownProps v = []"

datatype proto = ObjectPrototype | NullPrototype | ProtoValue json

fun protoSetterInReach :: "proto \<Rightarrow> bool" where
  \<comment> \<open>a decoded object that is the prototype hides the setter when it has an own
      property \<^verbatim>\<open>__proto__\<close>; behind it, and behind an array, is the object prototype\<close>
  "protoSetterInReach ObjectPrototype = True"
| "protoSetterInReach NullPrototype = False"
| "protoSetterInReach (ProtoValue (JObj kvs)) = (map_of kvs ''__proto__'' = None)"
| "protoSetterInReach (ProtoValue v) = True"

fun assignProp ::
  "(string \<times> json) list \<times> proto \<Rightarrow> string \<times> json \<Rightarrow> (string \<times> json) list \<times> proto" where
  \<comment> \<open>\<^verbatim>\<open>target[k] = v\<close> on a target given by its own properties and its prototype\<close>
  "assignProp (props, pr) (k, v) =
     (if k = ''__proto__'' \<and> map_of props ''__proto__'' = None \<and> protoSetterInReach pr then
        (case v of
           JObj kvs \<Rightarrow> (props, ProtoValue v)
         | JArr xs \<Rightarrow> (props, ProtoValue v)
         | JNull \<Rightarrow> (props, NullPrototype)
         | _ \<Rightarrow> (props, pr))
      else (setProp props k v, pr))"

definition assignFrom ::
  "(string \<times> json) list \<times> proto \<Rightarrow> json \<Rightarrow> (string \<times> json) list \<times> proto" where
  "assignFrom target source = foldl assignProp target (ownProps source)"

definition Object_assign ::
  "(string \<times> json) list \<times> proto \<Rightarrow> json list \<Rightarrow> (string \<times> json) list \<times> proto" where
  "Object_assign target sources = foldl assignFrom target sources"

definition pricesOf :: "json \<Rightarrow> error + json" where
  \<comment> \<open>api.ts 176-199. The merged object is given by its own properties; the prototype
      the target ends with is not part of the value.\<close>
  "pricesOf result =
     (case result of
        JStr s \<Rightarrow> Inl (Error (JStr s))
      | JArr xs \<Rightarrow>
          if length xs = 0 then Inr (JObj [])
          else Inr (JObj (fst (Object_assign ([], ObjectPrototype) xs)))
      | JObj kvs \<Rightarrow> Inr result
      | _ \<Rightarrow> Inl (Error (JStr ''Failed to fetch prices: unexpected response format'')))"

definition getPrices :: "(string \<Rightarrow> json option) \<Rightarrow> string \<Rightarrow> error + json" where
  \<comment> \<open>api.ts 166-200; \<open>service\<close> and \<open>country\<close> only shape the request\<close>
  "getPrices dec text =
     (case apiCall dec text of
        Inl e \<Rightarrow> Inl e
      | Inr result \<Rightarrow> pricesOf result)"

section \<open>get-phone-number.tsx and favorite-services.tsx: recently used countries\<close>

text \<open>
  \<^verbatim>\<open>LocalStorage\<close> maps keys to texts. \<^verbatim>\<open>JSON.stringify\<close> is the parameter
  \<open>enc\<close>. A \<^verbatim>\<open>TypeError\<close> raised inside \<^verbatim>\<open>saveRecentlyUsedCountry\<close> (a method of
  a value that has none, a property of \<^verbatim>\<open>null\<close>) is \<open>None\<close>: the handler of line 78
  logs it and nothing is stored.
\<close>

definition RECENTLY_USED_KEY :: string where
  "RECENTLY_USED_KEY = ''recently_used_service_countries''"

definition loadEntries :: "(string \<Rightarrow> json option) \<Rightarrow> (string \<rightharpoonup> string) \<Rightarrow> json" where
  \<comment> \<open>get-phone-number.tsx 51-61 (favorite-services.tsx 26-36)\<close>
  "loadEntries dec storage =
     (case storage RECENTLY_USED_KEY of
        None \<Rightarrow> JArr []
      | Some recentlyUsed \<Rightarrow>
          if recentlyUsed = [] then JArr []
          else (case JSON_parse dec recentlyUsed of
                  None \<Rightarrow> JArr []
                | Some parsed \<Rightarrow> if isArray (Some parsed) then JArr [] else parsed))"

fun findEntry :: "json list \<Rightarrow> string \<Rightarrow> (json option) option" where
  \<comment> \<open>\<^verbatim>\<open>entries.find((e) => e.serviceCode === serviceCode)\<close>: \<open>None\<close> is the
      \<^verbatim>\<open>TypeError\<close> of reading a property of \<^verbatim>\<open>null\<close>, \<open>Some None\<close> is no match\<close>
  "findEntry [] serviceCode = Some None"
| "findEntry (e # es) serviceCode =
     (if e = JNull then None
      else if getProp e ''serviceCode'' = Some (JStr serviceCode) then Some (Some e)
      else findEntry es serviceCode)"

definition updateIds :: "json \<Rightarrow> rat \<Rightarrow> json option" where
  \<comment> \<open>get-phone-number.tsx 70-75 on one entry: filter, unshift, slice\<close>
  "updateIds entry countryId =
     (case getProp entry ''countryIds'' of
        Some (JArr ids) \<Rightarrow>
          (case entry of
             JObj kvs \<Rightarrow>
               Some (JObj (setProp kvs ''countryIds''
                 (JArr (take 10 (JNum countryId # filter (\<lambda>i. i \<noteq> JNum countryId) ids)))))
           | _ \<Rightarrow> None)
      | _ \<Rightarrow> None)"

fun replaceEntry :: "json list \<Rightarrow> json \<Rightarrow> json \<Rightarrow> json list" where
  \<comment> \<open>the found entry is an element of \<open>entries\<close>: updating it updates the array\<close>
  "replaceEntry [] old new = []"
| "replaceEntry (e # es) old new = (if e = old then new # es else e # replaceEntry es old new)"

definition updateEntries :: "json \<Rightarrow> string \<Rightarrow> rat \<Rightarrow> json option" where
  \<comment> \<open>get-phone-number.tsx 63-75\<close>
  "updateEntries entries serviceCode countryId =
     (case entries of
        JArr es \<Rightarrow>
          (case findEntry es serviceCode of
             None \<Rightarrow> None
           | Some None \<Rightarrow>
               (case updateIds (JObj [(''serviceCode'', JStr serviceCode), (''countryIds'', JArr [])])
                       countryId of
                  None \<Rightarrow> None
                | Some entry \<Rightarrow> Some (JArr (es @ [entry])))
           | Some (Some found) \<Rightarrow>
               (case updateIds found countryId of
                  None \<Rightarrow> None
                | Some entry \<Rightarrow> Some (JArr (replaceEntry es found entry))))
      | _ \<Rightarrow> None)"

definition saveRecentlyUsedCountry ::
  "(string \<Rightarrow> json option) \<Rightarrow> (json \<Rightarrow> string) \<Rightarrow> string \<Rightarrow> rat
     \<Rightarrow> (string \<rightharpoonup> string) \<Rightarrow> (string \<rightharpoonup> string)" where
  \<comment> \<open>get-phone-number.tsx 49-81, favorite-services.tsx 24-56 (the same text)\<close>
  "saveRecentlyUsedCountry dec enc serviceCode countryId storage =
     (case updateEntries (loadEntries dec storage) serviceCode countryId of
        None \<Rightarrow> storage
      | Some entries \<Rightarrow> storage(RECENTLY_USED_KEY \<mapsto> enc entries))"

definition getRecentlyUsedCountries ::
  "(string \<Rightarrow> json option) \<Rightarrow> string \<Rightarrow> (string \<rightharpoonup> string) \<Rightarrow> json" where
  \<comment> \<open>get-phone-number.tsx 30-47; the empty list is \<open>JArr []\<close>, and every exception
      of the body ends in the final \<^verbatim>\<open>return []\<close>\<close>
  "getRecentlyUsedCountries dec serviceCode storage =
     (case storage RECENTLY_USED_KEY of
        None \<Rightarrow> JArr []
      | Some recentlyUsed \<Rightarrow>
          if recentlyUsed = [] then JArr []
          else (case JSON_parse dec recentlyUsed of
                  None \<Rightarrow> JArr []
                | Some parsed \<Rightarrow>
                    if isArray (Some parsed) then JArr []
                    else (case parsed of
                            JArr entries \<Rightarrow>
                              (case findEntry entries serviceCode of
                                 None \<Rightarrow> JArr []
                               | Some None \<Rightarrow> JArr []
                               | Some (Some entry) \<Rightarrow>
                                   (case getProp entry ''countryIds'' of
                                      None \<Rightarrow> JNull \<comment> \<open>stands for \<^verbatim>\<open>undefined\<close>\<close>
                                    | Some ids \<Rightarrow> ids))
                          | _ \<Rightarrow> JArr [])))"

section \<open>utils.ts and see-activations.tsx: remaining time\<close>

record RemainingTime =
  minutes :: int
  seconds :: int
  expired :: bool

definition expiredResult :: RemainingTime where
  "expiredResult = \<lparr>minutes = 0, seconds = 0, expired = True\<rparr>"

definition totalDuration :: int where
  "totalDuration = 20 * 60 * 1000"

text \<open>
  Instants are milliseconds since the epoch, as \<^verbatim>\<open>Date.now()\<close> and
  \<^verbatim>\<open>getTime()\<close> give them. \<open>localCreatedAt\<close> is \<open>None\<close> for \<^verbatim>\<open>null\<close> or
  \<^verbatim>\<open>undefined\<close>; the number \<open>0\<close> is falsy as well. \<^verbatim>\<open>new Date(t)\<close> is a valid date
  only for \<open>t\<close> within 8.64e15 ms on either side of the epoch, and
  \<^verbatim>\<open>toISOString()\<close> throws on an invalid one.
\<close>

definition validTime :: "int \<Rightarrow> bool" where
  "validTime t \<longleftrightarrow> - 8640000000000000 \<le> t \<and> t \<le> 8640000000000000"

definition localCountdown :: "int \<Rightarrow> int \<Rightarrow> RemainingTime" where
  \<comment> \<open>utils.ts 17-51 without the log statements\<close>
  "localCountdown now created =
     (let timeElapsed = now - created;
          remaining = totalDuration - timeElapsed
      in if remaining \<le> 0 then expiredResult
         else
           (let totalSeconds = remaining div 1000;
                minutes = totalSeconds div 60;
                seconds = totalSeconds mod 60
            in if minutes > 20 then \<lparr>minutes = 20, seconds = 0, expired = False\<rparr>
               else \<lparr>minutes = minutes, seconds = seconds, expired = False\<rparr>))"

definition getRemainingTimeFromLocal :: "int \<Rightarrow> int option \<Rightarrow> error + RemainingTime" where
  \<comment> \<open>utils.ts 2-52; \<open>now\<close> is \<^verbatim>\<open>Date.now()\<close>. The log statements print
      \<^verbatim>\<open>new Date(localCreatedAt).toISOString()\<close> (lines 9 and 26, for a truthy
      \<open>localCreatedAt\<close>) and \<^verbatim>\<open>new Date(now).toISOString()\<close> (line 24), which throw on an
      invalid date.\<close>
  "getRemainingTimeFromLocal now localCreatedAt =
     (case localCreatedAt of
        None \<Rightarrow> Inr expiredResult
      | Some created \<Rightarrow>
          if created \<noteq> 0 \<and> \<not> validTime created then Inl RangeError
          else if created = 0 then Inr expiredResult
          else if \<not> validTime now then Inl RangeError
          else Inr (localCountdown now created))"

text \<open>
  \<^verbatim>\<open>new Date(s).getTime()\<close> belongs to the runtime and depends on the local time
  zone: it is the parameter \<open>parseDate\<close>, \<open>None\<close> for an invalid date (\<^verbatim>\<open>NaN\<close>).
\<close>

definition serverPattern :: string where
  \<comment> \<open>\<^verbatim>\<open>/^\d{4}-\d{2}-\d{2} \d{2}:\d{2}:\d{2}$/\<close>, \<open>d\<close> standing for \<^verbatim>\<open>\d\<close>\<close>
  "serverPattern = ''dddd-dd-dd dd:dd:dd''"

definition matchesServerFormat :: "string \<Rightarrow> bool" where
  "matchesServerFormat s \<longleftrightarrow>
     list_all2 (\<lambda>p c. if p = CHR ''d'' then isDigit c else c = p) serverPattern s"

fun replaceFirst :: "char \<Rightarrow> string \<Rightarrow> string \<Rightarrow> string" where
  \<comment> \<open>\<^verbatim>\<open>s.replace(c, r)\<close> with a string pattern: the first occurrence only\<close>
  "replaceFirst c r [] = []"
| "replaceFirst c r (x # xs) = (if x = c then r @ xs else x # replaceFirst c r xs)"

fun split :: "char \<Rightarrow> string \<Rightarrow> string list" where
  \<comment> \<open>\<^verbatim>\<open>s.split(c)\<close>\<close>
  "split c [] = [[]]"
| "split c (x # xs) =
     (if x = c then [] # split c xs
      else (case split c xs of [] \<Rightarrow> [[x]] | p # ps \<Rightarrow> (x # p) # ps))"

definition utcString :: "string \<Rightarrow> string" where
  \<comment> \<open>see-activations.tsx 297-298; a missing second part prints as \<^verbatim>\<open>undefined\<close>\<close>
  "utcString activationTime =
     (case split (CHR '' '') activationTime of
        [] \<Rightarrow> ''undefinedTundefinedZ''
      | [datePart] \<Rightarrow> datePart @ ''T'' @ ''undefined'' @ ''Z''
      | datePart # timePart # others \<Rightarrow> datePart @ ''T'' @ timePart @ ''Z'')"

definition activationDateOf :: "(string \<Rightarrow> int option) \<Rightarrow> int \<Rightarrow> string \<Rightarrow> int option" where
  \<comment> \<open>see-activations.tsx 281-309: the instant \<open>activationDate\<close> ends up holding\<close>
  "activationDateOf parseDate now activationTime =
     (if includesStr activationTime ''T'' then parseDate activationTime
      else if matchesServerFormat activationTime then
        (case parseDate (replaceFirst (CHR '' '') ''T'' activationTime) of
           None \<Rightarrow> None
         | Some localDate \<Rightarrow>
             (let testElapsed = now - localDate
              in if testElapsed < -300000 \<or> testElapsed > 25 * 60 * 1000 then
                   (case parseDate (utcString activationTime) of
                      None \<Rightarrow> Some localDate
                    | Some utcDate \<Rightarrow>
                        (let utcElapsed = now - utcDate
                         in if utcElapsed \<ge> -60000 \<and> utcElapsed \<le> 25 * 60 * 1000
                            then Some utcDate
                            else Some localDate))
                 else Some localDate))
      else parseDate activationTime)"

definition getRemainingTime :: "(string \<Rightarrow> int option) \<Rightarrow> int \<Rightarrow> string \<Rightarrow> RemainingTime" where
  \<comment> \<open>see-activations.tsx 273-372; \<open>now\<close> is \<^verbatim>\<open>currentTime.getTime()\<close>. No call of
      the body throws on a string, so the handler of line 368 is never entered.\<close>
  "getRemainingTime parseDate now activationTime =
     (if activationTime = [] \<or> trim activationTime = [] then expiredResult
      else
        (case activationDateOf parseDate now activationTime of
           None \<Rightarrow> expiredResult
         | Some activationDate \<Rightarrow>
             (let timeElapsed = now - activationDate
              in if timeElapsed < -60000 then expiredResult
                 else
                   (let remaining = totalDuration - timeElapsed
                    in if remaining \<le> -5000 then expiredResult
                       else if remaining < 0 then \<lparr>minutes = 0, seconds = 0, expired = False\<rparr>
                       else
                         (let totalSeconds = remaining div 1000;
                              minutes0 = totalSeconds div 60;
                              seconds = totalSeconds mod 60;
                              minutes = (if minutes0 > 20 then 20 else minutes0)
                          in if minutes < 0 \<or> seconds < 0
                             then \<lparr>minutes = 0, seconds = 0, expired = False\<rparr>
                             else \<lparr>minutes = minutes, seconds = seconds, expired = False\<rparr>)))))"

section \<open>see-activations.tsx: activations on the screen\<close>

record Activation =
  activationId :: string
  serviceCode :: string
  phoneNumber :: string
  activationCost :: rat
  activationStatus :: string
  smsCode :: "string option"
  smsText :: "string option"
  activationTime :: string
  discount :: string
  repeated :: string
  countryCode :: string
  countryName :: string
  canGetAnotherSms :: string
  currency :: string

text \<open>
  What \<^verbatim>\<open>fetchActivations\<close> adds to each activation: the code of
  \<^verbatim>\<open>statusDetails?.sms\<close> (\<open>None\<close> when the status, its \<^verbatim>\<open>sms\<close> or the code is
  missing; no other part of the status is read) and the instant stored for it locally.
\<close>

record EnhancedActivation = Activation +
  statusSmsCode :: "string option"
  localCreatedAt :: "int option"

definition getStatusText :: "'a Activation_scheme \<Rightarrow> bool \<Rightarrow> string" where
  \<comment> \<open>see-activations.tsx 656-684\<close>
  "getStatusText activation hasCode =
     (if hasCode then ''Code Received''
      else if activationStatus activation = ''1'' then ''Waiting for SMS''
      else if activationStatus activation = ''3'' then ''Retrying''
      else if activationStatus activation = ''4'' then ''Waiting for SMS''
      else if activationStatus activation = ''6''
        then (if hasCode then ''Code Received'' else ''Completed'')
      else if activationStatus activation = ''8'' then ''Canceled''
      else ''Status: '' @ activationStatus activation)"

definition hasLocal :: "int option \<Rightarrow> bool" where
  \<comment> \<open>the truth value of \<^verbatim>\<open>activation.localCreatedAt\<close>\<close>
  "hasLocal created \<longleftrightarrow> (case created of None \<Rightarrow> False | Some c \<Rightarrow> c \<noteq> 0)"

definition activationKey :: "'a Activation_scheme \<Rightarrow> string" where
  "activationKey a = ''activation_'' @ activationId a"

definition locallyExpired :: "int \<Rightarrow> EnhancedActivation \<Rightarrow> bool" where
  \<comment> \<open>see-activations.tsx 134-139: the test that drops an activation\<close>
  "locallyExpired now activation \<longleftrightarrow>
     (case localCreatedAt activation of
        None \<Rightarrow> False
      | Some created \<Rightarrow> created \<noteq> 0 \<and> now - created > 20 * 60 * 1000)"

fun validActivations ::
  "int \<Rightarrow> EnhancedActivation list \<Rightarrow> (string \<rightharpoonup> string)
     \<Rightarrow> EnhancedActivation list \<times> (string \<rightharpoonup> string)" where
  \<comment> \<open>see-activations.tsx 131-147: the filter over \<open>enhancedActivations\<close>, with the
      \<^verbatim>\<open>LocalStorage\<close> it removes timers from; \<open>now\<close> is \<^verbatim>\<open>Date.now()\<close>\<close>
  "validActivations now [] storage = ([], storage)"
| "validActivations now (activation # rest) storage =
     (if locallyExpired now activation
      then validActivations now rest (storage(activationKey activation := None))
      else (case validActivations now rest storage of
              (kept, storage') \<Rightarrow> (activation # kept, storage')))"

definition remainingTimeOf ::
  "(string \<Rightarrow> int option) \<Rightarrow> int \<Rightarrow> EnhancedActivation \<Rightarrow> error + RemainingTime" where
  \<comment> \<open>see-activations.tsx 427-439: the log statement of line 430 prints
      \<^verbatim>\<open>new Date(localCreatedAt).toISOString()\<close> for a truthy \<open>localCreatedAt\<close>, then
      the remaining time is taken from the local instant if there is one\<close>
  "remainingTimeOf parseDate now activation =
     (if hasLocal (localCreatedAt activation) \<and> \<not> validTime (the (localCreatedAt activation))
      then Inl RangeError
      else if hasLocal (localCreatedAt activation)
      then getRemainingTimeFromLocal now (localCreatedAt activation)
      else Inr (getRemainingTime parseDate now (activationTime activation)))"

definition strOr :: "string option \<Rightarrow> string option \<Rightarrow> string option" where
  \<comment> \<open>\<^verbatim>\<open>a || b\<close> on optional strings: the empty string is falsy\<close>
  "strOr a b = (case a of None \<Rightarrow> b | Some s \<Rightarrow> if s = [] then b else Some s)"

definition codeOf :: "EnhancedActivation \<Rightarrow> string option" where
  \<comment> \<open>see-activations.tsx 408 (and 231, 520)\<close>
  "codeOf activation = strOr (smsCode activation) (statusSmsCode activation)"

definition isLineTerminator :: "char \<Rightarrow> bool" where
  "isLineTerminator c \<longleftrightarrow> c = CHR 0x0A \<or> c = CHR 0x0D"

definition matchesBracketed :: "string \<Rightarrow> bool" where
  \<comment> \<open>\<^verbatim>\<open>code.match(/^\[.*\]$/)\<close>: an opening bracket first, a closing bracket last,
      and no line terminator between them\<close>
  "matchesBracketed s =
     (case s of
        [] \<Rightarrow> False
      | c # rest \<Rightarrow>
          c = CHR ''['' \<and> rest \<noteq> [] \<and> last rest = CHR '']''
          \<and> list_all (\<lambda>x. \<not> isLineTerminator x) (butlast rest))"

definition hasCode :: "string option \<Rightarrow> bool" where
  \<comment> \<open>see-activations.tsx 410-417; \<open>code\<close> is a string or missing\<close>
  "hasCode code =
     (case code of
        None \<Rightarrow> False
      | Some c \<Rightarrow>
          c \<noteq> [] \<and> c \<noteq> ''null'' \<and> c \<noteq> ''undefined'' \<and> length (trim c) > 0
          \<and> \<not> matchesBracketed c)"


section \<open>Sample records\<close>

text \<open>
  Concrete activations, as \<^verbatim>\<open>fetchActivations\<close> holds them, for evaluating the
  functions above: one with a given status and code, one with a given server time stamp
  and local instant.
\<close>

definition sampleActivation :: "string \<Rightarrow> string option \<Rightarrow> EnhancedActivation" where
  "sampleActivation status code =
     \<lparr>activationId = ''101'', serviceCode = ''tg'', phoneNumber = ''79001234567'',
      activationCost = 1, activationStatus = status, smsCode = code, smsText = None,
      activationTime = ''2026-01-08 21:42:03'', discount = ''0.00'', repeated = ''0'',
      countryCode = ''7'', countryName = '''', canGetAnotherSms = ''0'', currency = ''840'',
      statusSmsCode = None, localCreatedAt = None\<rparr>"

definition trackedActivation :: "string \<Rightarrow> string \<Rightarrow> int option \<Rightarrow> EnhancedActivation" where
  "trackedActivation ident serverTime created =
     \<lparr>activationId = ident, serviceCode = ''tg'', phoneNumber = ''79001234567'',
      activationCost = 1, activationStatus = ''1'', smsCode = None, smsText = None,
      activationTime = serverTime, discount = ''0.00'', repeated = ''0'',
      countryCode = ''7'', countryName = '''', canGetAnotherSms = ''0'', currency = ''840'',
      statusSmsCode = None, localCreatedAt = created\<rparr>"

section \<open>Sentinel texts\<close>

lemma startsWith_Cons:
  "startsWith s (c # p) \<longleftrightarrow> (\<exists>rest. s = c # rest \<and> startsWith rest p)"
  by (cases s) (auto simp: startsWith_def)

lemma startsWith_Nil [simp]: "startsWith s []"
  by (simp add: startsWith_def)

lemma not_jsonStart_sentinel:
  assumes "startsWith text ''BAD_'' \<or> startsWith text ''NO_'' \<or> startsWith text ''ERROR_''"
  shows "\<not> jsonStart text"
  using assms
  by (auto simp: startsWith_Cons jsonStart_def isJsonWhiteSpace_def isDigit_def)

lemma tryParse_sentinel:
  assumes "startsWith text ''BAD_'' \<or> startsWith text ''NO_'' \<or> startsWith text ''ERROR_''"
  shows "tryParse dec text = Inl SyntaxError"
  using not_jsonStart_sentinel [OF assms] by (simp add: tryParse_def JSON_parse_def)

text \<open>
  C6. Whatever the decoder \<open>dec\<close> does: a text starting with \<^verbatim>\<open>NO_KEY\<close> or
  \<^verbatim>\<open>BAD_KEY\<close> fails with the invalid-key error, one starting with \<^verbatim>\<open>ERROR_SQL\<close>
  fails with the server error, and one starting with any other \<^verbatim>\<open>BAD_\<close>, \<^verbatim>\<open>NO_\<close>
  or \<^verbatim>\<open>ERROR_\<close> prefix fails with an error whose message is the text itself. The first
  two are thrown before the decoder is called; the third is thrown by the handler of the
  failed decode, and no decoder can succeed on such a text, so the outcome does not
  depend on decoding either.
\<close>

theorem apiCall_sentinel_prefixes:
  "(startsWith text ''NO_KEY'' \<or> startsWith text ''BAD_KEY'' \<longrightarrow>
      apiCall dec text
        = Inl (Error (JStr ''Invalid API key. Please check your API key in Raycast preferences.'')))
   \<and> (startsWith text ''ERROR_SQL'' \<longrightarrow>
      apiCall dec text = Inl (Error (JStr ''Server error. Please try again later.'')))
   \<and> ((startsWith text ''BAD_'' \<or> startsWith text ''NO_'' \<or> startsWith text ''ERROR_'')
       \<and> \<not> startsWith text ''NO_KEY'' \<and> \<not> startsWith text ''BAD_KEY''
       \<and> \<not> startsWith text ''ERROR_SQL'' \<longrightarrow>
      apiCall dec text = Inl (Error (JStr text)))"
proof (intro conjI impI)
  assume "startsWith text ''NO_KEY'' \<or> startsWith text ''BAD_KEY''"
  then show "apiCall dec text
      = Inl (Error (JStr ''Invalid API key. Please check your API key in Raycast preferences.''))"
    by (simp add: apiCall_def)
next
  assume sql: "startsWith text ''ERROR_SQL''"
  then have "\<not> startsWith text ''NO_KEY''" "\<not> startsWith text ''BAD_KEY''"
    by (auto simp: startsWith_Cons)
  with sql show "apiCall dec text = Inl (Error (JStr ''Server error. Please try again later.''))"
    by (simp add: apiCall_def)
next
  assume h: "(startsWith text ''BAD_'' \<or> startsWith text ''NO_'' \<or> startsWith text ''ERROR_'')
       \<and> \<not> startsWith text ''NO_KEY'' \<and> \<not> startsWith text ''BAD_KEY''
       \<and> \<not> startsWith text ''ERROR_SQL''"
  then have "tryParse dec text = Inl SyntaxError"
    using tryParse_sentinel by blast
  with h show "apiCall dec text = Inl (Error (JStr text))"
    by (simp add: apiCall_def)
qed

theorem apiCall_sentinel_prefixes_witness:
  "apiCall (\<lambda>t. Some (JArr [])) ''NO_KEY''
     = Inl (Error (JStr ''Invalid API key. Please check your API key in Raycast preferences.''))
   \<and> apiCall (\<lambda>t. Some (JArr [])) ''BAD_KEY: rejected''
     = Inl (Error (JStr ''Invalid API key. Please check your API key in Raycast preferences.''))
   \<and> apiCall (\<lambda>t. Some (JArr [])) ''ERROR_SQL''
     = Inl (Error (JStr ''Server error. Please try again later.''))
   \<and> apiCall (\<lambda>t. Some (JArr [])) ''BAD_SERVICE'' = Inl (Error (JStr ''BAD_SERVICE''))
   \<and> apiCall (\<lambda>t. Some (JArr [])) ''NO_NUMBERS'' = Inl (Error (JStr ''NO_NUMBERS''))
   \<and> apiCall (\<lambda>t. Some (JArr [])) ''ERROR_BANNED'' = Inl (Error (JStr ''ERROR_BANNED''))"
  using apiCall_sentinel_prefixes [of "''NO_KEY''" "\<lambda>t. Some (JArr [])"]
    apiCall_sentinel_prefixes [of "''BAD_KEY: rejected''" "\<lambda>t. Some (JArr [])"]
    apiCall_sentinel_prefixes [of "''ERROR_SQL''" "\<lambda>t. Some (JArr [])"]
    apiCall_sentinel_prefixes [of "''BAD_SERVICE''" "\<lambda>t. Some (JArr [])"]
    apiCall_sentinel_prefixes [of "''NO_NUMBERS''" "\<lambda>t. Some (JArr [])"]
    apiCall_sentinel_prefixes [of "''ERROR_BANNED''" "\<lambda>t. Some (JArr [])"]
  by (simp add: startsWith_def)

section \<open>The active list and the NO_ACTIVATIONS sentinel\<close>

lemma apiCall_error_envelope:
  assumes "JSON_parse dec text = Some (JObj kvs)" and "map_of kvs ''status'' = Some (JStr ''error'')"
  shows "apiCall dec text = Inr (JStr text)"
proof -
  from assms(1) have js: "jsonStart text"
    by (simp add: JSON_parse_def split: if_splits)
  then have no: "\<not> startsWith text ''BAD_''" "\<not> startsWith text ''NO_''"
      "\<not> startsWith text ''ERROR_''"
    using not_jsonStart_sentinel by blast+
  then have "\<not> startsWith text ''NO_KEY''" "\<not> startsWith text ''BAD_KEY''"
      "\<not> startsWith text ''ERROR_SQL''"
    by (auto simp: startsWith_Cons)
  with no assms show ?thesis
    by (simp add: apiCall_def tryParse_def)
qed

lemma includesStr_self: "includesStr s s"
  by (cases s) (simp_all add: startsWith_def)

lemma getActiveActivations_error_envelope:
  assumes "JSON_parse dec text = Some (JObj kvs)" and "map_of kvs ''status'' = Some (JStr ''error'')"
  shows "getActiveActivations dec toActivation text
     = (if includesStr text ''NO_ACTIVATIONS'' then Inr [] else Inl (Error (JStr text)))"
  using apiCall_error_envelope [OF assms] includesStr_self [of "text"]
  by (auto simp: getActiveActivations_def activeActivationsOf_def)

text \<open>
  C1. The response text \<^verbatim>\<open>NO_ACTIVATIONS\<close> makes \<^verbatim>\<open>getActiveActivations\<close> raise:
  the text is no JSON, so the handler in \<^verbatim>\<open>apiCall\<close> runs, finds the prefix
  \<^verbatim>\<open>NO_\<close> and throws an error with the text as its message. The branch of
  \<^verbatim>\<open>getActiveActivations\<close> that returns the empty list for this string (api.ts 242)
  is never reached. (The error envelope of the lemma above does give the empty list, as
  long as its text holds the word \<^verbatim>\<open>NO_ACTIVATIONS\<close>.)
\<close>

theorem getActiveActivations_NO_ACTIVATIONS_raises:
  "getActiveActivations dec toActivation ''NO_ACTIVATIONS''
     = Inl (Error (JStr ''NO_ACTIVATIONS''))"
  by (simp add: getActiveActivations_def apiCall_def tryParse_def JSON_parse_def jsonStart_def
      isJsonWhiteSpace_def isDigit_def startsWith_def)

section \<open>The price table\<close>

lemma map_of_setProp: "map_of (setProp kvs k v) = (map_of kvs)(k \<mapsto> v)"
  by (induction kvs) (auto simp: fun_eq_iff)

lemma setProp_not_Nil: "setProp kvs k v \<noteq> []"
  by (induction kvs k v rule: setProp.induct) auto

lemma assignFrom_block:
  assumes "k \<noteq> ''__proto__''"
  shows "assignFrom (props, pr) (JObj [(k, v)]) = (setProp props k v, pr)"
  using assms by (simp add: assignFrom_def)

lemma Object_assign_blocks:
  assumes "list_all (\<lambda>(k, inner). k \<noteq> ''__proto__'') blocks"
  shows "Object_assign (props, pr) (map (\<lambda>(k, inner). JObj [(k, JObj inner)]) blocks)
     = (foldl (\<lambda>t (k, inner). setProp t k (JObj inner)) props blocks, pr)"
  using assms
proof (induction blocks arbitrary: props)
  case Nil
  show ?case by (simp add: Object_assign_def)
next
  case (Cons b blocks)
  obtain k inner where b: "b = (k, inner)" by (cases b)
  from Cons.prems b have k: "k \<noteq> ''__proto__''"
    and rest: "list_all (\<lambda>(k, inner). k \<noteq> ''__proto__'') blocks"
    by simp_all
  have "Object_assign (props, pr) (map (\<lambda>(k, inner). JObj [(k, JObj inner)]) (b # blocks))
      = Object_assign (assignFrom (props, pr) (JObj [(k, JObj inner)]))
          (map (\<lambda>(k, inner). JObj [(k, JObj inner)]) blocks)"
    by (simp add: Object_assign_def b)
  also have "\<dots> = Object_assign (setProp props k (JObj inner), pr)
          (map (\<lambda>(k, inner). JObj [(k, JObj inner)]) blocks)"
    by (simp only: assignFrom_block [OF k])
  also have "\<dots> = (foldl (\<lambda>t (k, inner). setProp t k (JObj inner))
          (setProp props k (JObj inner)) blocks, pr)"
    by (rule Cons.IH [OF rest])
  finally show ?case
    by (simp add: b)
qed

lemma map_of_foldl_setProp:
  "map_of (foldl (\<lambda>t (k, inner). setProp t k (JObj inner)) props blocks)
     = foldl (++) (map_of props) (map (\<lambda>(k, inner). [k \<mapsto> JObj inner]) blocks)"
proof (induction blocks arbitrary: props)
  case Nil
  show ?case by simp
next
  case (Cons b blocks)
  obtain k inner where b: "b = (k, inner)" by (cases b)
  have "map_of (foldl (\<lambda>t (k, inner). setProp t k (JObj inner)) props (b # blocks))
      = foldl (++) (map_of (setProp props k (JObj inner)))
          (map (\<lambda>(k, inner). [k \<mapsto> JObj inner]) blocks)"
    unfolding b by (simp only: foldl_Cons prod.case Cons.IH)
  also have "map_of (setProp props k (JObj inner)) = map_of props ++ [k \<mapsto> JObj inner]"
    by (simp add: map_of_setProp)
  finally show ?case
    unfolding b by (simp only: list.map prod.case foldl_Cons)
qed

lemma foldl_setProp_not_Nil:
  assumes "blocks \<noteq> []"
  shows "foldl (\<lambda>t (k, inner). setProp t k (JObj inner)) props blocks \<noteq> []"
proof -
  from assms obtain front b where "blocks = front @ [b]"
    by (cases blocks rule: rev_cases) auto
  then show ?thesis
    by (cases b) (simp add: setProp_not_Nil)
qed

lemma apiCall_array:
  assumes "JSON_parse dec text = Some (JArr xs)"
  shows "apiCall dec text = Inr (JArr xs)"
proof -
  from assms have js: "jsonStart text"
    by (simp add: JSON_parse_def split: if_splits)
  then have no: "\<not> startsWith text ''BAD_''" "\<not> startsWith text ''NO_''"
      "\<not> startsWith text ''ERROR_''"
    using not_jsonStart_sentinel by blast+
  then have "\<not> startsWith text ''NO_KEY''" "\<not> startsWith text ''BAD_KEY''"
      "\<not> startsWith text ''ERROR_SQL''"
    by (auto simp: startsWith_Cons)
  with assms show ?thesis
    by (simp add: apiCall_def tryParse_def)
qed

text \<open>
  C9 as stated fails for the outer key \<^verbatim>\<open>__proto__\<close>: an array holding one object with
  that key and an inner object is merged into an object with no property at all (the
  inner object has become the prototype of the result), not into the mapping from
  \<^verbatim>\<open>__proto__\<close> to the inner object.
\<close>

theorem getPrices_proto_key_counterexample:
  \<open>JSON_parse
     (\<lambda>t. if t = ''[{"__proto__":{"svcA":{"cost":1}}}]''
           then Some (JArr [JObj [(''__proto__'', JObj [(''svcA'', JObj [(''cost'', JNum 1)])])]])
           else None)
     ''[{"__proto__":{"svcA":{"cost":1}}}]''
   = Some (JArr [JObj [(''__proto__'', JObj [(''svcA'', JObj [(''cost'', JNum 1)])])]])
   \<and> getPrices
     (\<lambda>t. if t = ''[{"__proto__":{"svcA":{"cost":1}}}]''
           then Some (JArr [JObj [(''__proto__'', JObj [(''svcA'', JObj [(''cost'', JNum 1)])])]])
           else None)
     ''[{"__proto__":{"svcA":{"cost":1}}}]''
   = Inr (JObj [])
   \<and> getPrices
     (\<lambda>t. if t = ''[{"__proto__":{"svcA":{"cost":1}}}]''
           then Some (JArr [JObj [(''__proto__'', JObj [(''svcA'', JObj [(''cost'', JNum 1)])])]])
           else None)
     ''[{"__proto__":{"svcA":{"cost":1}}}]''
   \<noteq> Inr (JObj [(''__proto__'', JObj [(''svcA'', JObj [(''cost'', JNum 1)])])])\<close>
proof -
  let ?text = \<open>''[{"__proto__":{"svcA":{"cost":1}}}]''\<close>
  let ?payload = "JArr [JObj [(''__proto__'', JObj [(''svcA'', JObj [(''cost'', JNum 1)])])]]"
  let ?dec = "\<lambda>t. if t = ?text then Some ?payload else None"
  have h: "JSON_parse ?dec ?text = Some ?payload"
    by (simp add: JSON_parse_def jsonStart_def isJsonWhiteSpace_def)
  have r: "getPrices ?dec ?text = Inr (JObj [])"
    by (simp add: getPrices_def apiCall_array [OF h] pricesOf_def Object_assign_def assignFrom_def)
  from h r show ?thesis by simp
qed

text \<open>
  C9, amended. When the response decodes to an array whose elements are objects with one
  outer key each, none of them \<^verbatim>\<open>__proto__\<close>, \<^verbatim>\<open>getPrices\<close> returns one object that
  holds every outer key with its inner object: as a mapping it is the elements' mappings
  merged from left to right (a later element wins where two share an outer key). The
  empty array gives the empty object.
\<close>

theorem getPrices_array_merge:
  assumes "JSON_parse dec text = Some (JArr (map (\<lambda>(k, inner). JObj [(k, JObj inner)]) blocks))"
    and "list_all (\<lambda>(k, inner). k \<noteq> ''__proto__'') blocks"
  shows "\<exists>merged. getPrices dec text = Inr (JObj merged)
           \<and> map_of merged = foldl (++) Map.empty (map (\<lambda>(k, inner). [k \<mapsto> JObj inner]) blocks)
           \<and> (if blocks = [] then merged = [] else merged \<noteq> [])"
proof (cases "blocks = []")
  case True
  with assms have "getPrices dec text = Inr (JObj [])"
    by (simp add: getPrices_def apiCall_array pricesOf_def)
  with True show ?thesis by simp
next
  case False
  let ?merged = "foldl (\<lambda>t (k, inner). setProp t k (JObj inner)) [] blocks"
  from False assms(1) have "getPrices dec text
      = Inr (JObj (fst (Object_assign ([], ObjectPrototype)
          (map (\<lambda>(k, inner). JObj [(k, JObj inner)]) blocks))))"
    by (simp add: getPrices_def apiCall_array pricesOf_def)
  then have res: "getPrices dec text = Inr (JObj ?merged)"
    by (simp only: Object_assign_blocks [OF assms(2)] fst_conv)
  have m: "map_of ?merged = foldl (++) Map.empty (map (\<lambda>(k, inner). [k \<mapsto> JObj inner]) blocks)"
    using map_of_foldl_setProp [of "[]" blocks] by simp
  have "?merged \<noteq> []"
    using False by (rule foldl_setProp_not_Nil)
  with res m False show ?thesis by simp
qed

theorem getPrices_array_merge_witness:
  \<open>JSON_parse
     (\<lambda>t. if t = ''[{"1":{"svcA":{"cost":1}}},{"2":{"svcA":{"cost":2}}}]''
           then Some (JArr [JObj [(''1'', JObj [(''svcA'', JObj [(''cost'', JNum 1)])])],
                            JObj [(''2'', JObj [(''svcA'', JObj [(''cost'', JNum 2)])])]])
           else None)
     ''[{"1":{"svcA":{"cost":1}}},{"2":{"svcA":{"cost":2}}}]''
   = Some (JArr (map (\<lambda>(k, inner). JObj [(k, JObj inner)])
        [(''1'', [(''svcA'', JObj [(''cost'', JNum 1)])]), (''2'', [(''svcA'', JObj [(''cost'', JNum 2)])])]))
   \<and> list_all (\<lambda>(k, inner). k \<noteq> ''__proto__'')
        [(''1'', [(''svcA'', JObj [(''cost'', JNum 1)])]), (''2'', [(''svcA'', JObj [(''cost'', JNum 2)])])]
   \<and> getPrices
     (\<lambda>t. if t = ''[{"1":{"svcA":{"cost":1}}},{"2":{"svcA":{"cost":2}}}]''
           then Some (JArr [JObj [(''1'', JObj [(''svcA'', JObj [(''cost'', JNum 1)])])],
                            JObj [(''2'', JObj [(''svcA'', JObj [(''cost'', JNum 2)])])]])
           else None)
     ''[{"1":{"svcA":{"cost":1}}},{"2":{"svcA":{"cost":2}}}]''
   = Inr (JObj [(''1'', JObj [(''svcA'', JObj [(''cost'', JNum 1)])]),
                (''2'', JObj [(''svcA'', JObj [(''cost'', JNum 2)])])])
   \<and> getPrices (\<lambda>t. Some (JArr [])) ''[]'' = Inr (JObj [])\<close>
proof -
  let ?text = \<open>''[{"1":{"svcA":{"cost":1}}},{"2":{"svcA":{"cost":2}}}]''\<close>
  let ?payload = "JArr [JObj [(''1'', JObj [(''svcA'', JObj [(''cost'', JNum 1)])])],
                        JObj [(''2'', JObj [(''svcA'', JObj [(''cost'', JNum 2)])])]]"
  let ?blocks = "[(''1'', [(''svcA'', JObj [(''cost'', JNum 1)])]),
                  (''2'', [(''svcA'', JObj [(''cost'', JNum (2::rat))])])]"
  let ?dec = "\<lambda>t. if t = ?text then Some ?payload else None"
  have h: "JSON_parse ?dec ?text
      = Some (JArr (map (\<lambda>(k, inner). JObj [(k, JObj inner)]) ?blocks))"
    by (simp add: JSON_parse_def jsonStart_def isJsonWhiteSpace_def)
  have ok: "list_all (\<lambda>(k, inner). k \<noteq> ''__proto__'') ?blocks"
    by simp
  have e: "JSON_parse (\<lambda>t. Some (JArr [])) ''[]''
      = Some (JArr (map (\<lambda>(k, inner). JObj [(k, JObj inner)]) []))"
    by (simp add: JSON_parse_def jsonStart_def isJsonWhiteSpace_def)
  have two: "getPrices ?dec ?text
      = Inr (JObj [(''1'', JObj [(''svcA'', JObj [(''cost'', JNum 1)])]),
                   (''2'', JObj [(''svcA'', JObj [(''cost'', JNum 2)])])])"
    using h
    by (simp add: getPrices_def apiCall_array pricesOf_def Object_assign_def assignFrom_def
        isArrayIndex_def allDigits_def isDigit_def indexValue_def startsWith_def)
  have none: "getPrices (\<lambda>t. Some (JArr [])) ''[]'' = Inr (JObj [])"
    using getPrices_array_merge [OF e] by auto
  from h ok two none show ?thesis by blast
qed

section \<open>Status text\<close>

text \<open>
  C2 as stated fails: with a usable code, status 8 reads \<^verbatim>\<open>Code Received\<close>, not
  \<^verbatim>\<open>Canceled\<close>.
\<close>

theorem getStatusText_canceled_counterexample:
  "getStatusText (sampleActivation ''8'' (Some ''1234'')) True = ''Code Received''
   \<and> getStatusText (sampleActivation ''8'' (Some ''1234'')) True \<noteq> ''Canceled''"
  by (simp add: getStatusText_def)

text \<open>
  C2, amended. The status text depends on the status and the code flag only. With the
  flag set it is \<^verbatim>\<open>Code Received\<close> whatever the status; without it, status 1 gives
  \<^verbatim>\<open>Waiting for SMS\<close>, 3 \<^verbatim>\<open>Retrying\<close>, 4 \<^verbatim>\<open>Waiting for SMS\<close>, 6
  \<^verbatim>\<open>Completed\<close>, 8 \<^verbatim>\<open>Canceled\<close>, and any other status the text \<^verbatim>\<open>Status: \<close>
  followed by the status itself. So status 8 gives \<^verbatim>\<open>Canceled\<close> only without a
  usable code.
\<close>

theorem getStatusText_classification:
  "(activationStatus a = activationStatus b \<longrightarrow> getStatusText a h = getStatusText b h)
   \<and> (h \<longrightarrow> getStatusText a h = ''Code Received'')
   \<and> (\<not> h \<and> activationStatus a = ''1'' \<longrightarrow> getStatusText a h = ''Waiting for SMS'')
   \<and> (\<not> h \<and> activationStatus a = ''3'' \<longrightarrow> getStatusText a h = ''Retrying'')
   \<and> (\<not> h \<and> activationStatus a = ''4'' \<longrightarrow> getStatusText a h = ''Waiting for SMS'')
   \<and> (\<not> h \<and> activationStatus a = ''6'' \<longrightarrow> getStatusText a h = ''Completed'')
   \<and> (\<not> h \<and> activationStatus a = ''8'' \<longrightarrow> getStatusText a h = ''Canceled'')
   \<and> (\<not> h \<and> activationStatus a \<notin> {''1'', ''3'', ''4'', ''6'', ''8''} \<longrightarrow>
        getStatusText a h = ''Status: '' @ activationStatus a)"
  by (simp add: getStatusText_def)

theorem getStatusText_classification_witness:
  "getStatusText (sampleActivation ''4'' None) False = ''Waiting for SMS''
   \<and> getStatusText (sampleActivation ''4'' (Some ''1234'')) True = ''Code Received''
   \<and> getStatusText (sampleActivation ''8'' None) False = ''Canceled''
   \<and> getStatusText (sampleActivation ''8'' (Some ''1234'')) True = ''Code Received''
   \<and> getStatusText (sampleActivation ''1'' None) False = ''Waiting for SMS''
   \<and> getStatusText (sampleActivation ''3'' None) False = ''Retrying''
   \<and> getStatusText (sampleActivation ''6'' None) False = ''Completed''
   \<and> getStatusText (sampleActivation ''7'' None) False = ''Status: 7''"
  using getStatusText_classification [of "sampleActivation ''4'' None" "sampleActivation ''4'' None" False]
    getStatusText_classification [of "sampleActivation ''4'' (Some ''1234'')" "sampleActivation ''4'' None" True]
    getStatusText_classification [of "sampleActivation ''8'' None" "sampleActivation ''4'' None" False]
    getStatusText_classification [of "sampleActivation ''8'' (Some ''1234'')" "sampleActivation ''4'' None" True]
    getStatusText_classification [of "sampleActivation ''1'' None" "sampleActivation ''4'' None" False]
    getStatusText_classification [of "sampleActivation ''3'' None" "sampleActivation ''4'' None" False]
    getStatusText_classification [of "sampleActivation ''6'' None" "sampleActivation ''4'' None" False]
    getStatusText_classification [of "sampleActivation ''7'' None" "sampleActivation ''4'' None" False]
  by (simp add: sampleActivation_def getStatusText_def)

section \<open>Usable codes\<close>










section \<open>Remaining time from the local instant\<close>

lemma getRemainingTimeFromLocal_valid:
  assumes "created \<noteq> 0" and "validTime created" and "validTime now"
  shows "getRemainingTimeFromLocal now (Some created) = Inr (localCountdown now created)"
  using assms by (simp add: getRemainingTimeFromLocal_def)

lemma getRemainingTimeFromLocal_invalid:
  assumes "created \<noteq> 0" and "\<not> validTime created"
  shows "getRemainingTimeFromLocal now (Some created) = Inl RangeError"
  using assms by (simp add: getRemainingTimeFromLocal_def)

lemma localCountdown_expired_iff:
  "expired (localCountdown now created) \<longleftrightarrow> totalDuration - (now - created) \<le> 0"
  by (simp add: localCountdown_def expiredResult_def Let_def)

lemma localCountdown_shown:
  assumes "created \<le> now" and "0 < totalDuration - (now - created)"
  shows "60 * minutes (localCountdown now created) + seconds (localCountdown now created)
         = (totalDuration - (now - created)) div 1000"
proof -
  let ?remaining = "totalDuration - (now - created)"
  from assms have "?remaining \<le> 1200000"
    by (simp add: totalDuration_def)
  then have "?remaining div 1000 \<le> 1200"
    by simp
  then have "\<not> ?remaining div 1000 div 60 > 20"
    by simp
  with assms show ?thesis
    by (simp add: localCountdown_def Let_def)
qed

lemma localCountdown_seconds:
  "0 \<le> seconds (localCountdown now created) \<and> seconds (localCountdown now created) < 60"
  by (simp add: localCountdown_def expiredResult_def Let_def)

lemma localCountdown_never_rises:
  assumes "created \<le> now" and "now \<le> now'"
  shows "60 * minutes (localCountdown now' created) + seconds (localCountdown now' created)
       \<le> 60 * minutes (localCountdown now created) + seconds (localCountdown now created)"
proof -
  let ?shown = "\<lambda>t. 60 * minutes (localCountdown t created) + seconds (localCountdown t created)"
  have zero: "?shown t = 0" if "totalDuration - (t - created) \<le> 0" for t
    using that by (simp add: localCountdown_def expiredResult_def Let_def)
  have nonneg: "0 \<le> ?shown t" if "created \<le> t" for t
  proof (cases "totalDuration - (t - created) \<le> 0")
    case True
    then show ?thesis by (simp add: zero)
  next
    case False
    then have "?shown t = (totalDuration - (t - created)) div 1000"
      using that by (simp add: localCountdown_shown)
    with False show ?thesis by simp
  qed
  show ?thesis
  proof (cases "totalDuration - (now' - created) \<le> 0")
    case True
    with assms nonneg [of now] show ?thesis by (simp add: zero)
  next
    case False
    with assms have "0 < totalDuration - (now - created)" by simp
    with assms False have "?shown now = (totalDuration - (now - created)) div 1000"
      and "?shown now' = (totalDuration - (now' - created)) div 1000"
      by (simp_all add: localCountdown_shown)
    moreover from assms have "(totalDuration - (now' - created)) div 1000
        \<le> (totalDuration - (now - created)) div 1000"
      by (intro zdiv_mono1) simp_all
    ultimately show ?thesis by simp
  qed
qed

text \<open>
  C5 as stated fails: one second past the twenty minutes (remaining \<open>-1000\<close> ms, inside
  the five seconds the claim calls a grace buffer) the local computation already reports
  expired.
\<close>

theorem getRemainingTimeFromLocal_no_grace_counterexample:
  "totalDuration - (2201000 - 1000000) = -1000
   \<and> getRemainingTimeFromLocal 2201000 (Some 1000000)
       = Inr \<lparr>minutes = 0, seconds = 0, expired = True\<rparr>"
  by (simp add: getRemainingTimeFromLocal_def localCountdown_def validTime_def expiredResult_def
      totalDuration_def)

text \<open>
  C5, amended. Let the local creation instant be a non-zero number that is a valid date,
  and let \<open>now\<close> and a later \<open>now'\<close> be valid dates too. Then the computation returns a
  result at both; the remaining time \<open>20 min - (now - created)\<close> falls strictly as
  \<open>now\<close> advances; the result is expired exactly when the remaining time is \<open>0\<close> or
  less (this path has no grace buffer), so once expired it stays expired; and from the
  creation instant on, while it is not expired, it reports the remaining whole seconds
  as minutes and seconds, a value that never rises as \<open>now\<close> advances.
\<close>

theorem getRemainingTimeFromLocal_monotone:
  assumes "created \<noteq> 0" and "validTime created" and "validTime now" and "validTime now'"
  shows "\<exists>r r'. getRemainingTimeFromLocal now (Some created) = Inr r
    \<and> getRemainingTimeFromLocal now' (Some created) = Inr r'
    \<and> (now < now' \<longrightarrow> totalDuration - (now' - created) < totalDuration - (now - created))
    \<and> (expired r \<longleftrightarrow> totalDuration - (now - created) \<le> 0)
    \<and> (expired r' \<longleftrightarrow> totalDuration - (now' - created) \<le> 0)
    \<and> (now \<le> now' \<and> expired r \<longrightarrow> expired r')
    \<and> (created \<le> now \<and> \<not> expired r \<longrightarrow>
          60 * minutes r + seconds r = (totalDuration - (now - created)) div 1000
          \<and> 0 \<le> seconds r \<and> seconds r < 60)
    \<and> (created \<le> now \<and> now \<le> now' \<longrightarrow>
          60 * minutes r' + seconds r' \<le> 60 * minutes r + seconds r)"
proof (intro exI conjI impI)
  show "getRemainingTimeFromLocal now (Some created) = Inr (localCountdown now created)"
    using assms by (simp add: getRemainingTimeFromLocal_valid)
  show "getRemainingTimeFromLocal now' (Some created) = Inr (localCountdown now' created)"
    using assms by (simp add: getRemainingTimeFromLocal_valid)
  show "expired (localCountdown now created) \<longleftrightarrow> totalDuration - (now - created) \<le> 0"
    by (rule localCountdown_expired_iff)
  show "expired (localCountdown now' created) \<longleftrightarrow> totalDuration - (now' - created) \<le> 0"
    by (rule localCountdown_expired_iff)
next
  assume "now < now'"
  then show "totalDuration - (now' - created) < totalDuration - (now - created)"
    by simp
next
  assume "now \<le> now' \<and> expired (localCountdown now created)"
  then show "expired (localCountdown now' created)"
    by (simp add: localCountdown_expired_iff)
next
  assume h: "created \<le> now \<and> \<not> expired (localCountdown now created)"
  then have "0 < totalDuration - (now - created)"
    by (simp add: localCountdown_expired_iff)
  with h show "60 * minutes (localCountdown now created) + seconds (localCountdown now created)
      = (totalDuration - (now - created)) div 1000"
    by (simp add: localCountdown_shown)
  show "0 \<le> seconds (localCountdown now created)"
    using localCountdown_seconds by blast
  show "seconds (localCountdown now created) < 60"
    using localCountdown_seconds by blast
next
  assume "created \<le> now \<and> now \<le> now'"
  then show "60 * minutes (localCountdown now' created) + seconds (localCountdown now' created)
      \<le> 60 * minutes (localCountdown now created) + seconds (localCountdown now created)"
    by (simp add: localCountdown_never_rises)
qed

theorem getRemainingTimeFromLocal_monotone_witness:
  "(1000000::int) \<noteq> 0 \<and> validTime 1000000 \<and> validTime 2200000 \<and> validTime 2201000
   \<and> getRemainingTimeFromLocal 1000000 (Some 1000000)
       = Inr \<lparr>minutes = 20, seconds = 0, expired = False\<rparr>
   \<and> getRemainingTimeFromLocal 1001000 (Some 1000000)
       = Inr \<lparr>minutes = 19, seconds = 59, expired = False\<rparr>
   \<and> getRemainingTimeFromLocal 2199999 (Some 1000000)
       = Inr \<lparr>minutes = 0, seconds = 0, expired = False\<rparr>
   \<and> (\<exists>r r'. getRemainingTimeFromLocal 2200000 (Some 1000000) = Inr r
         \<and> getRemainingTimeFromLocal 2201000 (Some 1000000) = Inr r'
         \<and> expired r \<and> expired r')
   \<and> getRemainingTimeFromLocal 1767908703000 (Some 8640000000000001) = Inl RangeError"
proof -
  have c: "(1000000::int) \<noteq> 0" "validTime 1000000" "validTime 2200000" "validTime 2201000"
    by (simp_all add: validTime_def)
  have "\<exists>r r'. getRemainingTimeFromLocal 2200000 (Some 1000000) = Inr r
         \<and> getRemainingTimeFromLocal 2201000 (Some 1000000) = Inr r'
         \<and> expired r \<and> expired r'"
    using getRemainingTimeFromLocal_monotone [OF c]
    by (auto simp: totalDuration_def)
  moreover have "getRemainingTimeFromLocal 1000000 (Some 1000000)
      = Inr \<lparr>minutes = 20, seconds = 0, expired = False\<rparr>"
    "getRemainingTimeFromLocal 1001000 (Some 1000000)
      = Inr \<lparr>minutes = 19, seconds = 59, expired = False\<rparr>"
    "getRemainingTimeFromLocal 2199999 (Some 1000000)
      = Inr \<lparr>minutes = 0, seconds = 0, expired = False\<rparr>"
    "getRemainingTimeFromLocal 1767908703000 (Some 8640000000000001) = Inl RangeError"
    by (simp_all add: getRemainingTimeFromLocal_def localCountdown_def validTime_def
        totalDuration_def)
  ultimately show ?thesis using c by blast
qed

section \<open>The sweep over tracked activations\<close>

lemma validActivations_eq:
  "validActivations now as storage
     = (filter (\<lambda>a. \<not> locallyExpired now a) as,
        \<lambda>k. if k \<in> activationKey ` {a \<in> set as. locallyExpired now a} then None else storage k)"
proof (induction as arbitrary: storage)
  case Nil
  show ?case by simp
next
  case (Cons a as)
  show ?case
  proof (cases "locallyExpired now a")
    case True
    then have "{b \<in> set (a # as). locallyExpired now b}
        = insert a {b \<in> set as. locallyExpired now b}"
      by auto
    with True show ?thesis
      by (simp add: Cons.IH fun_eq_iff)
  next
    case False
    then have "{b \<in> set (a # as). locallyExpired now b} = {b \<in> set as. locallyExpired now b}"
      by auto
    with False show ?thesis
      by (simp add: Cons.IH)
  qed
qed

text \<open>
  C7 as stated fails for a record without a local instant: with an empty server time
  stamp its remaining time is expired, yet the sweep keeps it and leaves the storage
  alone.
\<close>

theorem validActivations_server_only_counterexample:
  "remainingTimeOf (\<lambda>s. None) 5000000 (trackedActivation ''7'' '''' None)
       = Inr \<lparr>minutes = 0, seconds = 0, expired = True\<rparr>
   \<and> validActivations 5000000 [trackedActivation ''7'' '''' None] [''activation_7'' \<mapsto> ''x'']
       = ([trackedActivation ''7'' '''' None], [''activation_7'' \<mapsto> ''x''])"
  by (simp add: remainingTimeOf_def hasLocal_def trackedActivation_def getRemainingTime_def
      expiredResult_def locallyExpired_def)

text \<open>
  C7, amended. On each sweep a record with a local instant (a non-zero number) more than
  twenty minutes old is dropped from the returned list and its timer entry is deleted
  from the storage in the same pass; a record with no local instant, or with one less
  than twenty minutes old, is kept, whatever its server time stamp says; the returned
  list is a sublist of the tracked one; and a storage entry that is not the timer of a
  dropped record is left as it was.
\<close>

theorem validActivations_sweep:
  "(a \<in> set as \<and> localCreatedAt a = Some created \<and> created \<noteq> 0 \<and> now - created > 1200000 \<longrightarrow>
      a \<notin> set (fst (validActivations now as storage))
      \<and> snd (validActivations now as storage) (activationKey a) = None)
   \<and> (a \<in> set as \<and> localCreatedAt a = None \<longrightarrow> a \<in> set (fst (validActivations now as storage)))
   \<and> (a \<in> set as \<and> localCreatedAt a = Some created \<and> now - created < 1200000 \<longrightarrow>
      a \<in> set (fst (validActivations now as storage)))
   \<and> (\<exists>keep. fst (validActivations now as storage) = filter keep as)
   \<and> ((\<forall>b \<in> set as. activationKey b = k \<longrightarrow> \<not> locallyExpired now b) \<longrightarrow>
        snd (validActivations now as storage) k = storage k)"
proof (intro conjI impI)
  assume h: "a \<in> set as \<and> localCreatedAt a = Some created \<and> created \<noteq> 0 \<and> now - created > 1200000"
  then have e: "locallyExpired now a"
    by (simp add: locallyExpired_def)
  then show "a \<notin> set (fst (validActivations now as storage))"
    by (simp add: validActivations_eq)
  from h e have "activationKey a \<in> activationKey ` {a \<in> set as. locallyExpired now a}"
    by blast
  then show "snd (validActivations now as storage) (activationKey a) = None"
    by (simp add: validActivations_eq)
next
  assume h: "a \<in> set as \<and> localCreatedAt a = None"
  then have "\<not> locallyExpired now a"
    by (simp add: locallyExpired_def)
  with h show "a \<in> set (fst (validActivations now as storage))"
    by (simp add: validActivations_eq)
next
  assume h: "a \<in> set as \<and> localCreatedAt a = Some created \<and> now - created < 1200000"
  then have "\<not> locallyExpired now a"
    by (simp add: locallyExpired_def)
  with h show "a \<in> set (fst (validActivations now as storage))"
    by (simp add: validActivations_eq)
next
  show "\<exists>keep. fst (validActivations now as storage) = filter keep as"
    by (simp add: validActivations_eq) blast
next
  assume "\<forall>b \<in> set as. activationKey b = k \<longrightarrow> \<not> locallyExpired now b"
  then have "k \<notin> activationKey ` {a \<in> set as. locallyExpired now a}"
    by auto
  then show "snd (validActivations now as storage) k = storage k"
    by (simp add: validActivations_eq)
qed

theorem validActivations_sweep_witness:
  "validActivations 5000000
     [trackedActivation ''1'' '''' (Some 1000000), trackedActivation ''2'' '''' (Some 4000000),
      trackedActivation ''3'' '''' None]
     [''activation_1'' \<mapsto> ''a'', ''activation_2'' \<mapsto> ''b'', ''other'' \<mapsto> ''c'']
   = ([trackedActivation ''2'' '''' (Some 4000000), trackedActivation ''3'' '''' None],
      [''activation_2'' \<mapsto> ''b'', ''other'' \<mapsto> ''c''])"
proof -
  let ?as = "[trackedActivation ''1'' '''' (Some 1000000), trackedActivation ''2'' '''' (Some 4000000),
      trackedActivation ''3'' '''' None]"
  let ?st = "[''activation_1'' \<mapsto> ''a'', ''activation_2'' \<mapsto> ''b'', ''other'' \<mapsto> ''c'']"
  note sweep = validActivations_sweep [of "trackedActivation ''1'' '''' (Some 1000000)" ?as
      1000000 5000000 ?st "''other''"]
  have "snd (validActivations 5000000 ?as ?st) ''activation_1'' = None"
    using sweep by (simp add: trackedActivation_def activationKey_def)
  then show ?thesis
    by (auto simp: trackedActivation_def activationKey_def locallyExpired_def fun_eq_iff)
qed

section \<open>Remaining time from the server time stamp\<close>

lemma isDigit_not_sep:
  assumes "isDigit c"
  shows "c \<noteq> CHR ''T''" and "c \<noteq> CHR '' ''" and "\<not> isWhiteSpace c"
  using assms by (auto simp: isDigit_def isWhiteSpace_def)

lemma matchesServerFormat_shape:
  assumes "matchesServerFormat s"
  shows "\<not> includesStr s ''T''"
    and "replaceFirst (CHR '' '') ''T'' s = take 10 s @ ''T'' @ drop 11 s"
    and "utcString s = take 10 s @ ''T'' @ drop 11 s @ ''Z''"
    and "s \<noteq> []" and "trim s \<noteq> []"
proof -
  from assms obtain y1 y2 y3 y4 m1 m2 d1 d2 h1 h2 n1 n2 s1 s2 where
    s: "s = [y1, y2, y3, y4, CHR ''-'', m1, m2, CHR ''-'', d1, d2, CHR '' '',
             h1, h2, CHR '':'', n1, n2, CHR '':'', s1, s2]"
    and d: "isDigit y1" "isDigit y2" "isDigit y3" "isDigit y4" "isDigit m1" "isDigit m2"
      "isDigit d1" "isDigit d2" "isDigit h1" "isDigit h2" "isDigit n1" "isDigit n2"
      "isDigit s1" "isDigit s2"
    unfolding matchesServerFormat_def serverPattern_def
    by (auto simp: list_all2_Cons1)
  note ne = d [THEN isDigit_not_sep(1)] d [THEN isDigit_not_sep(2)] d [THEN isDigit_not_sep(3)]
  show "\<not> includesStr s ''T''"
    using ne by (simp add: s startsWith_def)
  show "replaceFirst (CHR '' '') ''T'' s = take 10 s @ ''T'' @ drop 11 s"
    using ne by (simp add: s)
  show "utcString s = take 10 s @ ''T'' @ drop 11 s @ ''Z''"
    using ne by (simp add: s utcString_def)
  show "s \<noteq> []"
    by (simp add: s)
  show "trim s \<noteq> []"
    using ne by (simp add: s trim_def)
qed

lemma activationDateOf_other:
  assumes "\<not> matchesServerFormat s"
  shows "activationDateOf parseDate now s = parseDate s"
  using assms by (simp add: activationDateOf_def)

lemma activationDateOf_server:
  assumes "matchesServerFormat s"
  shows "activationDateOf parseDate now s =
     (case parseDate (take 10 s @ ''T'' @ drop 11 s) of
        None \<Rightarrow> None
      | Some l \<Rightarrow>
          if now - l < -300000 \<or> now - l > 1500000 then
            (case parseDate (take 10 s @ ''T'' @ drop 11 s @ ''Z'') of
               None \<Rightarrow> Some l
             | Some u \<Rightarrow> if -60000 \<le> now - u \<and> now - u \<le> 1500000 then Some u else Some l)
          else Some l)"
  using matchesServerFormat_shape(1-3) [OF assms] assms
  by (simp add: activationDateOf_def Let_def split: option.splits)

lemma getRemainingTime_resolved:
  assumes "trim s \<noteq> []"
  shows "getRemainingTime parseDate now s =
     (case activationDateOf parseDate now s of
        None \<Rightarrow> \<lparr>minutes = 0, seconds = 0, expired = True\<rparr>
      | Some d \<Rightarrow>
          if now - d < -60000 \<or> 1205000 \<le> now - d then \<lparr>minutes = 0, seconds = 0, expired = True\<rparr>
          else if 1200000 < now - d then \<lparr>minutes = 0, seconds = 0, expired = False\<rparr>
          else \<lparr>minutes = (if (1200000 - (now - d)) div 1000 div 60 > 20 then 20
                            else (1200000 - (now - d)) div 1000 div 60),
                seconds = (1200000 - (now - d)) div 1000 mod 60, expired = False\<rparr>)"
proof -
  from assms have ne: "s \<noteq> []"
    by (auto simp: trim_def)
  show ?thesis
  proof (cases "activationDateOf parseDate now s")
    case None
    with assms ne show ?thesis
      by (simp add: getRemainingTime_def expiredResult_def)
  next
    case (Some d)
    have nonneg: "0 \<le> (1200000 - (now - d)) div 1000 div 60" if "now - d \<le> 1200000"
      using that by (simp add: pos_imp_zdiv_nonneg_iff)
    have "0 \<le> (1200000 - (now - d)) div 1000 mod 60"
      by simp
    with Some assms ne nonneg show ?thesis
      by (auto simp: getRemainingTime_def expiredResult_def totalDuration_def Let_def)
  qed
qed

text \<open>
  C3. For a server time stamp of the shape \<^verbatim>\<open>YYYY-MM-DD HH:MM:SS\<close> the instant used is
  decided as follows. The stamp with \<^verbatim>\<open>T\<close> for its space is parsed (local time). If
  that instant is within 300000 ms in the future and 25 minutes in the past, it is used.
  Otherwise the same stamp with \<^verbatim>\<open>T\<close> and a final \<^verbatim>\<open>Z\<close> is parsed (UTC), and the
  UTC instant is used exactly when its elapsed time lies between -60000 ms and 25 minutes;
  if not (or if it does not parse), the local instant is kept. With the local elapsed
  time over 25 minutes and the UTC elapsed time 3 minutes, the UTC instant is used and
  17 minutes remain.
\<close>

theorem activationDateOf_disambiguation:
  assumes "matchesServerFormat s"
    and "parseDate (take 10 s @ ''T'' @ drop 11 s) = Some l"
  shows "(-300000 \<le> now - l \<and> now - l \<le> 1500000 \<longrightarrow>
            activationDateOf parseDate now s = Some l)
    \<and> ((now - l < -300000 \<or> now - l > 1500000)
         \<and> parseDate (take 10 s @ ''T'' @ drop 11 s @ ''Z'') = Some u
         \<and> -60000 \<le> now - u \<and> now - u \<le> 1500000 \<longrightarrow>
            activationDateOf parseDate now s = Some u)
    \<and> ((now - l < -300000 \<or> now - l > 1500000)
         \<and> parseDate (take 10 s @ ''T'' @ drop 11 s @ ''Z'') = Some u
         \<and> (now - u < -60000 \<or> now - u > 1500000) \<longrightarrow>
            activationDateOf parseDate now s = Some l)
    \<and> ((now - l < -300000 \<or> now - l > 1500000)
         \<and> parseDate (take 10 s @ ''T'' @ drop 11 s @ ''Z'') = None \<longrightarrow>
            activationDateOf parseDate now s = Some l)
    \<and> (now - l > 1500000
         \<and> parseDate (take 10 s @ ''T'' @ drop 11 s @ ''Z'') = Some u \<and> now - u = 180000 \<longrightarrow>
            activationDateOf parseDate now s = Some u
            \<and> getRemainingTime parseDate now s = \<lparr>minutes = 17, seconds = 0, expired = False\<rparr>)"
proof (intro conjI impI)
  assume "-300000 \<le> now - l \<and> now - l \<le> 1500000"
  with assms show "activationDateOf parseDate now s = Some l"
    by (simp add: activationDateOf_server)
next
  assume "(now - l < -300000 \<or> now - l > 1500000)
         \<and> parseDate (take 10 s @ ''T'' @ drop 11 s @ ''Z'') = Some u
         \<and> -60000 \<le> now - u \<and> now - u \<le> 1500000"
  with assms show "activationDateOf parseDate now s = Some u"
    by (simp add: activationDateOf_server)
next
  assume "(now - l < -300000 \<or> now - l > 1500000)
         \<and> parseDate (take 10 s @ ''T'' @ drop 11 s @ ''Z'') = Some u
         \<and> (now - u < -60000 \<or> now - u > 1500000)"
  with assms show "activationDateOf parseDate now s = Some l"
    by (auto simp: activationDateOf_server)
next
  assume "(now - l < -300000 \<or> now - l > 1500000)
         \<and> parseDate (take 10 s @ ''T'' @ drop 11 s @ ''Z'') = None"
  with assms show "activationDateOf parseDate now s = Some l"
    by (simp add: activationDateOf_server)
next
  assume h: "now - l > 1500000
         \<and> parseDate (take 10 s @ ''T'' @ drop 11 s @ ''Z'') = Some u \<and> now - u = 180000"
  with assms show u: "activationDateOf parseDate now s = Some u"
    by (simp add: activationDateOf_server)
  from h show "getRemainingTime parseDate now s = \<lparr>minutes = 17, seconds = 0, expired = False\<rparr>"
    by (simp add: getRemainingTime_resolved [OF matchesServerFormat_shape(5) [OF assms(1)]] u)
qed

theorem activationDateOf_disambiguation_witness:
  "matchesServerFormat ''2026-01-08 21:42:03''
   \<and> activationDateOf
        (\<lambda>t. if t = ''2026-01-08T21:42:03'' then Some 1767901323000
              else if t = ''2026-01-08T21:42:03Z'' then Some 1767908523000 else None)
        1767908703000 ''2026-01-08 21:42:03'' = Some 1767908523000
   \<and> getRemainingTime
        (\<lambda>t. if t = ''2026-01-08T21:42:03'' then Some 1767901323000
              else if t = ''2026-01-08T21:42:03Z'' then Some 1767908523000 else None)
        1767908703000 ''2026-01-08 21:42:03'' = \<lparr>minutes = 17, seconds = 0, expired = False\<rparr>"
proof -
  let ?parse = "\<lambda>t. if t = ''2026-01-08T21:42:03'' then Some (1767901323000::int)
              else if t = ''2026-01-08T21:42:03Z'' then Some 1767908523000 else None"
  have m: "matchesServerFormat ''2026-01-08 21:42:03''"
    by (simp add: matchesServerFormat_def serverPattern_def isDigit_def)
  have p: "?parse (take 10 ''2026-01-08 21:42:03'' @ ''T'' @ drop 11 ''2026-01-08 21:42:03'')
      = Some 1767901323000"
    by simp
  from m p
    activationDateOf_disambiguation [where s = "''2026-01-08 21:42:03''" and parseDate = ?parse
      and l = 1767901323000 and now = 1767908703000 and u = 1767908523000]
  show ?thesis by simp
qed

text \<open>
  C4. \<^verbatim>\<open>getRemainingTime\<close> returns a result for every string, with minutes from 0 to
  20 and seconds from 0 to 59, and the result is the expired one (0 minutes, 0 seconds,
  expired) for the empty string, for a string of white space, for a string the date
  parser rejects, and for an instant more than 60 seconds in the future that the UTC
  reading does not replace.
\<close>

theorem getRemainingTime_total:
  "getRemainingTime parseDate now '''' = \<lparr>minutes = 0, seconds = 0, expired = True\<rparr>
   \<and> (trim s = [] \<longrightarrow>
        getRemainingTime parseDate now s = \<lparr>minutes = 0, seconds = 0, expired = True\<rparr>)
   \<and> (\<not> matchesServerFormat s \<and> parseDate s = None \<longrightarrow>
        getRemainingTime parseDate now s = \<lparr>minutes = 0, seconds = 0, expired = True\<rparr>)
   \<and> (matchesServerFormat s \<and> parseDate (take 10 s @ ''T'' @ drop 11 s) = None \<longrightarrow>
        getRemainingTime parseDate now s = \<lparr>minutes = 0, seconds = 0, expired = True\<rparr>)
   \<and> (\<not> matchesServerFormat s \<and> parseDate s = Some d \<and> now - d < -60000 \<longrightarrow>
        getRemainingTime parseDate now s = \<lparr>minutes = 0, seconds = 0, expired = True\<rparr>)
   \<and> (matchesServerFormat s \<and> parseDate (take 10 s @ ''T'' @ drop 11 s) = Some d
        \<and> now - d < -60000
        \<and> (-300000 \<le> now - d
           \<or> parseDate (take 10 s @ ''T'' @ drop 11 s @ ''Z'') = None
           \<or> (\<exists>u. parseDate (take 10 s @ ''T'' @ drop 11 s @ ''Z'') = Some u
                 \<and> (now - u < -60000 \<or> now - u > 1500000))) \<longrightarrow>
        getRemainingTime parseDate now s = \<lparr>minutes = 0, seconds = 0, expired = True\<rparr>)
   \<and> 0 \<le> minutes (getRemainingTime parseDate now s)
   \<and> minutes (getRemainingTime parseDate now s) \<le> 20
   \<and> 0 \<le> seconds (getRemainingTime parseDate now s)
   \<and> seconds (getRemainingTime parseDate now s) < 60"
proof (intro conjI impI)
  show "getRemainingTime parseDate now '''' = \<lparr>minutes = 0, seconds = 0, expired = True\<rparr>"
    by (simp add: getRemainingTime_def expiredResult_def)
next
  assume "trim s = []"
  then show "getRemainingTime parseDate now s = \<lparr>minutes = 0, seconds = 0, expired = True\<rparr>"
    by (simp add: getRemainingTime_def expiredResult_def)
next
  assume "\<not> matchesServerFormat s \<and> parseDate s = None"
  then show "getRemainingTime parseDate now s = \<lparr>minutes = 0, seconds = 0, expired = True\<rparr>"
    by (simp add: getRemainingTime_def expiredResult_def activationDateOf_other)
next
  assume "matchesServerFormat s \<and> parseDate (take 10 s @ ''T'' @ drop 11 s) = None"
  then show "getRemainingTime parseDate now s = \<lparr>minutes = 0, seconds = 0, expired = True\<rparr>"
    by (simp add: getRemainingTime_def expiredResult_def activationDateOf_server)
next
  assume "\<not> matchesServerFormat s \<and> parseDate s = Some d \<and> now - d < -60000"
  then show "getRemainingTime parseDate now s = \<lparr>minutes = 0, seconds = 0, expired = True\<rparr>"
    by (simp add: getRemainingTime_def expiredResult_def activationDateOf_other)
next
  assume h: "matchesServerFormat s \<and> parseDate (take 10 s @ ''T'' @ drop 11 s) = Some d
        \<and> now - d < -60000
        \<and> (-300000 \<le> now - d
           \<or> parseDate (take 10 s @ ''T'' @ drop 11 s @ ''Z'') = None
           \<or> (\<exists>u. parseDate (take 10 s @ ''T'' @ drop 11 s @ ''Z'') = Some u
                 \<and> (now - u < -60000 \<or> now - u > 1500000)))"
  then have "activationDateOf parseDate now s = Some d"
    by (auto simp: activationDateOf_server)
  with h show "getRemainingTime parseDate now s = \<lparr>minutes = 0, seconds = 0, expired = True\<rparr>"
    by (simp add: getRemainingTime_def expiredResult_def)
next
  have range: "0 \<le> minutes (getRemainingTime parseDate now s)
      \<and> minutes (getRemainingTime parseDate now s) \<le> 20
      \<and> 0 \<le> seconds (getRemainingTime parseDate now s)
      \<and> seconds (getRemainingTime parseDate now s) < 60"
  proof (cases "trim s = []")
    case True
    then show ?thesis
      by (simp add: getRemainingTime_def expiredResult_def)
  next
    case False
    have "0 \<le> (1200000 - (now - d)) div 1000 div 60" if "now - d \<le> 1200000" for d
      using that by (simp add: pos_imp_zdiv_nonneg_iff)
    then show ?thesis
      by (auto simp: getRemainingTime_resolved [OF False] split: option.splits)
  qed
  from range show "0 \<le> minutes (getRemainingTime parseDate now s)" by simp
  from range show "minutes (getRemainingTime parseDate now s) \<le> 20" by simp
  from range show "0 \<le> seconds (getRemainingTime parseDate now s)" by simp
  from range show "seconds (getRemainingTime parseDate now s) < 60" by simp
qed

theorem getRemainingTime_total_witness:
  "getRemainingTime (\<lambda>t. None) 1767908703000 '''' = \<lparr>minutes = 0, seconds = 0, expired = True\<rparr>
   \<and> getRemainingTime (\<lambda>t. None) 1767908703000 ''   '' = \<lparr>minutes = 0, seconds = 0, expired = True\<rparr>
   \<and> getRemainingTime (\<lambda>t. None) 1767908703000 ''soon'' = \<lparr>minutes = 0, seconds = 0, expired = True\<rparr>
   \<and> getRemainingTime (\<lambda>t. None) 1767908703000 ''2026-13-45 99:99:99''
       = \<lparr>minutes = 0, seconds = 0, expired = True\<rparr>
   \<and> getRemainingTime (\<lambda>t. Some 1767909000000) 1767908703000 ''2026-01-08T21:50:00Z''
       = \<lparr>minutes = 0, seconds = 0, expired = True\<rparr>
   \<and> getRemainingTime (\<lambda>t. Some 1767999000000) 1767908703000 ''2026-01-09 22:50:00''
       = \<lparr>minutes = 0, seconds = 0, expired = True\<rparr>"
proof -
  have "getRemainingTime (\<lambda>t. None) 1767908703000 '''' = \<lparr>minutes = 0, seconds = 0, expired = True\<rparr>"
    using getRemainingTime_total [of "\<lambda>t. None" 1767908703000 "''''" 0] by blast
  moreover have "getRemainingTime (\<lambda>t. None) 1767908703000 ''   ''
      = \<lparr>minutes = 0, seconds = 0, expired = True\<rparr>"
    using getRemainingTime_total [of "\<lambda>t. None" 1767908703000 "''   ''" 0]
    by (simp add: trim_def isWhiteSpace_def)
  moreover have "getRemainingTime (\<lambda>t. None) 1767908703000 ''soon''
      = \<lparr>minutes = 0, seconds = 0, expired = True\<rparr>"
    using getRemainingTime_total [of "\<lambda>t. None" 1767908703000 "''soon''" 0]
    by (simp add: matchesServerFormat_def serverPattern_def)
  moreover have "getRemainingTime (\<lambda>t. None) 1767908703000 ''2026-13-45 99:99:99''
      = \<lparr>minutes = 0, seconds = 0, expired = True\<rparr>"
    using getRemainingTime_total [of "\<lambda>t. None" 1767908703000 "''2026-13-45 99:99:99''" 0]
    by (simp add: matchesServerFormat_def serverPattern_def isDigit_def)
  moreover have "getRemainingTime (\<lambda>t. Some 1767909000000) 1767908703000 ''2026-01-08T21:50:00Z''
      = \<lparr>minutes = 0, seconds = 0, expired = True\<rparr>"
    using getRemainingTime_total [of "\<lambda>t. Some 1767909000000" 1767908703000
        "''2026-01-08T21:50:00Z''" 1767909000000]
    by (simp add: matchesServerFormat_def serverPattern_def)
  moreover have "getRemainingTime (\<lambda>t. Some 1767999000000) 1767908703000 ''2026-01-09 22:50:00''
      = \<lparr>minutes = 0, seconds = 0, expired = True\<rparr>"
    using getRemainingTime_total [of "\<lambda>t. Some 1767999000000" 1767908703000
        "''2026-01-09 22:50:00''" 1767999000000]
    by (simp add: matchesServerFormat_def serverPattern_def isDigit_def)
  ultimately show ?thesis by blast
qed

section \<open>Recently used countries\<close>

text \<open>
  What lines 70-75 do to the list of one entry: the saved id comes first, the list stays
  free of repetitions and holds at most ten ids.
\<close>

lemma updateIds_list:
  assumes "map_of kvs ''countryIds'' = Some (JArr ids)"
  shows "\<exists>kvs' ids'. updateIds (JObj kvs) cid = Some (JObj kvs')
           \<and> map_of kvs' ''countryIds'' = Some (JArr ids')
           \<and> ids' = take 10 (JNum cid # filter (\<lambda>i. i \<noteq> JNum cid) ids)
           \<and> hd ids' = JNum cid \<and> length ids' \<le> 10 \<and> (distinct ids \<longrightarrow> distinct ids')"
proof -
  let ?ids' = "take 10 (JNum cid # filter (\<lambda>i. i \<noteq> JNum cid) ids)"
  have "distinct (JNum cid # filter (\<lambda>i. i \<noteq> JNum cid) ids)" if "distinct ids"
    using that by simp
  then have "distinct ids \<longrightarrow> distinct ?ids'"
    using distinct_take by blast
  moreover have "hd ?ids' = JNum cid"
    by simp
  moreover have "length ?ids' \<le> 10"
    by simp
  moreover have "updateIds (JObj kvs) cid = Some (JObj (setProp kvs ''countryIds'' (JArr ?ids')))"
    using assms by (simp add: updateIds_def)
  moreover have "map_of (setProp kvs ''countryIds'' (JArr ?ids')) ''countryIds'' = Some (JArr ?ids')"
    by (simp add: map_of_setProp)
  ultimately show ?thesis by blast
qed

lemma loadEntries_array:
  assumes "storage RECENTLY_USED_KEY = Some stored" and "JSON_parse dec stored = Some (JArr saved)"
  shows "loadEntries dec storage = JArr []"
  using assms by (simp add: loadEntries_def)

lemma loadEntries_other:
  assumes "storage RECENTLY_USED_KEY = Some stored" and "JSON_parse dec stored = Some parsed"
    and "\<not> isArray (Some parsed)"
  shows "loadEntries dec storage = parsed"
proof -
  from assms(2) have "jsonStart stored"
    by (simp add: JSON_parse_def split: if_splits)
  then have "stored \<noteq> []"
    by (auto simp: jsonStart_def)
  with assms show ?thesis
    by (simp add: loadEntries_def)
qed

lemma updateEntries_fresh:
  "updateEntries (JArr []) svc cid
     = Some (JArr [JObj [(''serviceCode'', JStr svc), (''countryIds'', JArr [JNum cid])]])"
  by (simp add: updateEntries_def updateIds_def isArrayIndex_def allDigits_def isDigit_def)

lemma updateEntries_not_array:
  assumes "\<not> isArray (Some entries)"
  shows "updateEntries entries svc cid = None"
  using assms by (cases entries) (simp_all add: updateEntries_def)

lemma getRecentlyUsedCountries_empty:
  "getRecentlyUsedCountries dec svc storage = JArr []"
proof (cases "storage RECENTLY_USED_KEY")
  case None
  then show ?thesis by (simp add: getRecentlyUsedCountries_def)
next
  case (Some stored)
  show ?thesis
  proof (cases "JSON_parse dec stored")
    case None
    with Some show ?thesis by (simp add: getRecentlyUsedCountries_def)
  next
    case (Some parsed)
    with \<open>storage RECENTLY_USED_KEY = Some stored\<close> show ?thesis
      by (cases parsed) (simp_all add: getRecentlyUsedCountries_def)
  qed
qed

text \<open>
  C10. A save keeps nothing of what was stored before. When the stored text decodes to
  an array (as everything a save writes does), the array is replaced by the empty list
  before the update, so what is persisted is one entry for the saved service holding the
  saved id alone: earlier ids of that service and the entries of every other service are
  gone. When the stored text decodes to anything else, the update throws and the storage
  is left as it was. And \<^verbatim>\<open>getRecentlyUsedCountries\<close> returns the empty list from every
  storage.
\<close>

theorem saveRecentlyUsedCountry_keeps_no_history:
  assumes "storage RECENTLY_USED_KEY = Some stored"
  shows "(JSON_parse dec stored = Some (JArr saved) \<longrightarrow>
            saveRecentlyUsedCountry dec enc svc cid storage
              = storage(RECENTLY_USED_KEY \<mapsto>
                  enc (JArr [JObj [(''serviceCode'', JStr svc), (''countryIds'', JArr [JNum cid])]])))
    \<and> (JSON_parse dec stored = Some parsed \<and> \<not> isArray (Some parsed) \<longrightarrow>
            saveRecentlyUsedCountry dec enc svc cid storage = storage)
    \<and> getRecentlyUsedCountries dec svc (saveRecentlyUsedCountry dec enc svc cid storage) = JArr []"
proof (intro conjI impI)
  assume "JSON_parse dec stored = Some (JArr saved)"
  then have "loadEntries dec storage = JArr []"
    using assms loadEntries_array by blast
  then show "saveRecentlyUsedCountry dec enc svc cid storage
      = storage(RECENTLY_USED_KEY \<mapsto>
          enc (JArr [JObj [(''serviceCode'', JStr svc), (''countryIds'', JArr [JNum cid])]]))"
    by (simp add: saveRecentlyUsedCountry_def updateEntries_fresh)
next
  assume h: "JSON_parse dec stored = Some parsed \<and> \<not> isArray (Some parsed)"
  then have "loadEntries dec storage = parsed"
    using assms loadEntries_other by blast
  with h show "saveRecentlyUsedCountry dec enc svc cid storage = storage"
    by (simp add: saveRecentlyUsedCountry_def updateEntries_not_array)
next
  show "getRecentlyUsedCountries dec svc (saveRecentlyUsedCountry dec enc svc cid storage) = JArr []"
    by (rule getRecentlyUsedCountries_empty)
qed

theorem saveRecentlyUsedCountry_keeps_no_history_witness:
  \<open>\<forall>enc.
     saveRecentlyUsedCountry
       (\<lambda>t. if t = ''[{"serviceCode":"tg","countryIds":[1]}]''
             then Some (JArr [JObj [(''serviceCode'', JStr ''tg''), (''countryIds'', JArr [JNum 1])]])
             else None)
       enc ''tg'' 2
       [RECENTLY_USED_KEY \<mapsto> ''[{"serviceCode":"tg","countryIds":[1]}]'']
     = [RECENTLY_USED_KEY \<mapsto>
          enc (JArr [JObj [(''serviceCode'', JStr ''tg''), (''countryIds'', JArr [JNum 2])]])]\<close>
proof
  fix enc :: "json \<Rightarrow> string"
  let ?stored = \<open>''[{"serviceCode":"tg","countryIds":[1]}]''\<close>
  let ?saved = "[JObj [(''serviceCode'', JStr ''tg''), (''countryIds'', JArr [JNum 1])]]"
  let ?dec = "\<lambda>t. if t = ?stored then Some (JArr ?saved) else None"
  have s: "[RECENTLY_USED_KEY \<mapsto> ?stored] RECENTLY_USED_KEY = Some ?stored"
    by simp
  have p: "JSON_parse ?dec ?stored = Some (JArr ?saved)"
    by (simp add: JSON_parse_def jsonStart_def isJsonWhiteSpace_def)
  from s p saveRecentlyUsedCountry_keeps_no_history [where storage = "[RECENTLY_USED_KEY \<mapsto> ?stored]"
      and stored = ?stored and dec = ?dec and saved = ?saved and enc = enc and svc = "''tg''"
      and cid = 2]
  show "saveRecentlyUsedCountry ?dec enc ''tg'' 2 [RECENTLY_USED_KEY \<mapsto> ?stored]
      = [RECENTLY_USED_KEY \<mapsto>
          enc (JArr [JObj [(''serviceCode'', JStr ''tg''), (''countryIds'', JArr [JNum 2])]])]"
    by simp
qed

end
